theory Spec2Isabelle
  imports Complex_Main "HOL-Library.AList" "HOL-Library.Monad_Syntax" "HOL-Library.Product_Lexorder"
begin

section \<open>Python values, exceptions and containers\<close>

text \<open>
  The repository is a set of Jupyter notebooks that call the SlideRule client library,
  pandas and geopandas. Every raise of the Python code is a value of \<open>error\<close>; a cell
  or function that can raise returns \<open>error + 'a\<close>, with \<open>Inl\<close> for the exception
  that leaves it. \<open>External\<close> stands for whatever an external call raises (a network
  failure, a server error).
\<close>

datatype error =
    IndexError
  | KeyError string
  | ValueError
  | TypeError
  | NameError string
  | UnboundLocalError string
  | External string

text \<open>Statements in sequence: the first exception ends the sequence.\<close>

definition and_then :: "error + 'a \<Rightarrow> ('a \<Rightarrow> error + 'b) \<Rightarrow> error + 'b" where
  "and_then x f = (case x of Inl e \<Rightarrow> Inl e | Inr v \<Rightarrow> f v)"

text \<open>Python's \<open>xs[i]\<close>: negative indices count from the end, out of range raises.\<close>

definition py_index :: "'a list \<Rightarrow> int \<Rightarrow> error + 'a" where
  "py_index xs i =
     (if 0 \<le> i \<and> i < int (length xs) then Inr (xs ! nat i)
      else if i < 0 \<and> - i \<le> int (length xs) then Inr (xs ! nat (int (length xs) + i))
      else Inl IndexError)"

text \<open>Python's \<open>xs.pop()\<close>, read for its value: the last element, IndexError on the empty list.\<close>

definition py_pop :: "'a list \<Rightarrow> error + 'a" where
  "py_pop xs = (case xs of [] \<Rightarrow> Inl IndexError | _ \<Rightarrow> Inr (last xs))"

text \<open>
  A Python \<open>dict\<close> keeps its keys in insertion order: an association list, read with
  \<open>map_of\<close>, written with \<open>AList.update\<close> (an existing key keeps its place).
  \<open>d[k]\<close> raises KeyError on a missing key.
\<close>

definition dict_get :: "(string \<times> 'v) list \<Rightarrow> string \<Rightarrow> error + 'v" where
  "dict_get d k = (case map_of d k of Some v \<Rightarrow> Inr v | None \<Rightarrow> Inl (KeyError k))"

text \<open>
  The values that the notebooks put into request parameters. Decimal literals are kept as
  exact rationals: two occurrences of the same literal denote the same number, whatever
  its rounding.
\<close>

datatype pyval =
    PInt int
  | PNum rat
  | PStr string
  | PBool bool
  | PList "pyval list"
  | PDict "(string \<times> pyval) list"

type_synonym dict = "(string \<times> pyval) list"

text \<open>\<open>v[k]\<close> with a string key: a dict lookup; on a list it raises TypeError.\<close>

definition py_getitem :: "pyval \<Rightarrow> string \<Rightarrow> error + pyval" where
  "py_getitem v k = (case v of PDict d \<Rightarrow> dict_get d k | _ \<Rightarrow> Inl TypeError)"

section \<open>Literal regions of interest\<close>

text \<open>
  \<^verbatim>\<open>
  region = [ {"lon":-105.82971551223244, "lat": 39.81983728534918},
             {"lon":-105.30742121965137, "lat": 39.81983728534918},
             {"lon":-105.30742121965137, "lat": 40.164048017973755},
             {"lon":-105.82971551223244, "lat": 40.164048017973755},
             {"lon":-105.82971551223244, "lat": 39.81983728534918} ]
  \<close>
  (boulder\_watershed\_demo).
\<close>

definition region :: "pyval list" where
  "region =
     [ PDict [(''lon'', PNum (-105.82971551223244)), (''lat'', PNum 39.81983728534918)],
       PDict [(''lon'', PNum (-105.30742121965137)), (''lat'', PNum 39.81983728534918)],
       PDict [(''lon'', PNum (-105.30742121965137)), (''lat'', PNum 40.164048017973755)],
       PDict [(''lon'', PNum (-105.82971551223244)), (''lat'', PNum 40.164048017973755)],
       PDict [(''lon'', PNum (-105.82971551223244)), (''lat'', PNum 39.81983728534918)] ]"

text \<open>
  \<^verbatim>\<open>
  box_lon = [-105, -105, -100, -100, -105]
  box_lat = [-75, -77.5, -77.5, -75, -75]
  \<close>
  (single\_track\_demo); vertex \<open>i\<close> of the box is \<open>(box_lon[i], box_lat[i])\<close>.
\<close>

definition box_lon :: "pyval list" where
  "box_lon = [PInt (-105), PInt (-105), PInt (-100), PInt (-100), PInt (-105)]"

definition box_lat :: "pyval list" where
  "box_lat = [PInt (-75), PNum (-77.5), PNum (-77.5), PInt (-75), PInt (-75)]"

text \<open>
  Modelled from the spec: \<open>io.to_region\<close> belongs to the client library, which is not
  in the sources. The spec says that the region-of-interest builder "converts ... a
  literal coordinate list into a polygon structure consumed by request parameters"; the
  notebook passes its result whole as the \<open>poly\<close> parameter and as the search polygon.
  The structure is the list of vertices, each a dict of one longitude and one latitude.
  The two lists are put side by side in one array: lists of unequal length raise
  ValueError, and the coordinates come back as floats.
\<close>

fun as_float :: "pyval \<Rightarrow> pyval" where
  "as_float (PInt n) = PNum (of_int n)"
| "as_float v = v"

definition to_region :: "pyval list \<Rightarrow> pyval list \<Rightarrow> error + pyval" where
  "to_region lons lats =
     (if length lons = length lats
      then Inr (PList (map2 (\<lambda>x y. PDict [(''lon'', as_float x), (''lat'', as_float y)]) lons lats))
      else Inl ValueError)"

text \<open>What \<open>io.to_region(box_lon, box_lat)\<close> returns in the single-track notebook.\<close>

definition box_poly :: pyval where
  "box_poly =
     PList [ PDict [(''lon'', PNum (-105)), (''lat'', PNum (-75))],
             PDict [(''lon'', PNum (-105)), (''lat'', PNum (-77.5))],
             PDict [(''lon'', PNum (-100)), (''lat'', PNum (-77.5))],
             PDict [(''lon'', PNum (-100)), (''lat'', PNum (-75))],
             PDict [(''lon'', PNum (-105)), (''lat'', PNum (-75))] ]"

section \<open>The granule-name pattern\<close>

text \<open>
  \<^verbatim>\<open>
  rx = re.compile(r'(ATL\d{2})(-\d{2})?_(\d{4})(\d{2})(\d{2})(\d{2})'
      r'(\d{2})(\d{2})_(\d{4})(\d{2})(\d{2})_(\d{3})_(\d{2})(.*?).h5$')
  PRD,HEM,YY,MM,DD,HH,MN,SS,TRK,CYCL,GRN,RL,VRS,AUX=rx.findall(granule).pop()
  \<close>
  The matcher follows the pattern piece by piece. Strings are lists of 8-bit characters,
  so \<open>\d\<close> is an ASCII digit here. The dot before \<open>h5\<close> is not escaped in the source:
  it matches any character but a newline. \<open>$\<close> matches at the end of the string or
  just before a newline that ends it.
\<close>

definition nl :: char where
  "nl = CHR 0x0A"

definition is_digit :: "char \<Rightarrow> bool" where
  "is_digit c = (c \<in> set ''0123456789'')"

text \<open>\<open>\d{n}\<close>: exactly \<open>n\<close> digits; the result is the digits and the rest of the string.\<close>

fun digits :: "nat \<Rightarrow> string \<Rightarrow> (string \<times> string) option" where
  "digits 0 s = Some ([], s)"
| "digits (Suc n) [] = None"
| "digits (Suc n) (c # cs) =
     (if is_digit c then map_option (\<lambda>(d, r). (c # d, r)) (digits n cs) else None)"

text \<open>A literal piece of the pattern; the result is the rest of the string.\<close>

fun literal :: "string \<Rightarrow> string \<Rightarrow> string option" where
  "literal [] s = Some s"
| "literal (p # ps) [] = None"
| "literal (p # ps) (c # cs) = (if p = c then literal ps cs else None)"

text \<open>\<open>.h5$\<close> at the head of the string.\<close>

definition dot_h5_end :: "string \<Rightarrow> bool" where
  "dot_h5_end s =
     (case s of
        c # h # f # t \<Rightarrow> c \<noteq> nl \<and> h = CHR ''h'' \<and> f = CHR ''5'' \<and> (t = [] \<or> t = [nl])
      | _ \<Rightarrow> False)"

text \<open>
  \<open>(.*?).h5$\<close>: the lazy group takes one more character (never a newline) only when
  \<open>.h5$\<close> does not match where it stands. The result is the group and what is left
  after the match (nothing, or the final newline).
\<close>

fun rx_aux :: "string \<Rightarrow> string \<Rightarrow> (string \<times> string) option" where
  "rx_aux acc [] = None"
| "rx_aux acc (c # cs) =
     (if dot_h5_end (c # cs) then Some (rev acc, drop 3 (c # cs))
      else if c = nl then None
      else rx_aux (c # acc) cs)"

text \<open>\<open>(-\d{2})\<close>, the optional group.\<close>

definition rx_hem :: "string \<Rightarrow> (string \<times> string) option" where
  "rx_hem s = do { s' \<leftarrow> literal ''-'' s; (d, r) \<leftarrow> digits 2 s'; Some (CHR ''-'' # d, r) }"

text \<open>
  The whole pattern at the head of the string. When the optional group matches and the
  rest fails, the engine retries without the group; the next piece \<open>_\<close> then stands
  before a \<open>-\<close> and fails too, so no retry is written out. A group that did not take
  part in the match is the empty string in the result of \<open>findall\<close>.
\<close>

definition rx_match :: "string \<Rightarrow> (string list \<times> string) option" where
  "rx_match s0 = do {
     s1 \<leftarrow> literal ''ATL'' s0;
     (d, s2) \<leftarrow> digits 2 s1;
     (HEM, s3) \<leftarrow> Some (case rx_hem s2 of Some hr \<Rightarrow> hr | None \<Rightarrow> ([], s2));
     s4 \<leftarrow> literal ''_'' s3;
     (YY, s5) \<leftarrow> digits 4 s4;
     (MM, s6) \<leftarrow> digits 2 s5;
     (DD, s7) \<leftarrow> digits 2 s6;
     (HH, s8) \<leftarrow> digits 2 s7;
     (MN, s9) \<leftarrow> digits 2 s8;
     (SS, s10) \<leftarrow> digits 2 s9;
     s11 \<leftarrow> literal ''_'' s10;
     (TRK, s12) \<leftarrow> digits 4 s11;
     (CYCL, s13) \<leftarrow> digits 2 s12;
     (GRN, s14) \<leftarrow> digits 2 s13;
     s15 \<leftarrow> literal ''_'' s14;
     (RL, s16) \<leftarrow> digits 3 s15;
     s17 \<leftarrow> literal ''_'' s16;
     (VRS, s18) \<leftarrow> digits 2 s17;
     (AUX, rest) \<leftarrow> rx_aux [] s18;
     Some ([''ATL'' @ d, HEM, YY, MM, DD, HH, MN, SS, TRK, CYCL, GRN, RL, VRS, AUX], rest)
   }"

text \<open>
  \<open>rx.findall\<close>: the matches from left to right, none overlapping. \<open>rx_scan k s\<close>
  skips \<open>k\<close> characters (the rest of the previous match) and then tries every position.
\<close>

fun rx_scan :: "nat \<Rightarrow> string \<Rightarrow> string list list" where
  "rx_scan k [] = []"
| "rx_scan 0 (c # cs) =
     (case rx_match (c # cs) of
        Some (g, rest) \<Rightarrow> g # rx_scan (length cs - length rest) cs
      | None \<Rightarrow> rx_scan 0 cs)"
| "rx_scan (Suc k) (c # cs) = rx_scan k cs"

definition findall :: "string \<Rightarrow> string list list" where
  "findall s = rx_scan 0 s"

text \<open>Unpacking into fourteen names raises ValueError on any other number of values.\<close>

definition unpack14 :: "string list \<Rightarrow> error + string list" where
  "unpack14 t = (if length t = 14 then Inr t else Inl ValueError)"

definition unpack_granule :: "string \<Rightarrow> error + string list" where
  "unpack_granule granule = and_then (py_pop (findall granule)) unpack14"

text \<open>
  \<open>int(TRK)\<close>, \<open>int(CYCL)\<close>: the groups are digit strings, the only strings that
  reach \<open>int\<close> in this code.
\<close>

definition int_of_digits :: "string \<Rightarrow> error + int" where
  "int_of_digits s =
     (if s \<noteq> [] \<and> list_all is_digit s
      then Inr (foldl (\<lambda>n c. 10 * n + (int (of_char c) - 48)) 0 s)
      else Inl ValueError)"

section \<open>Result tables\<close>

text \<open>
  Modelled from the spec: pandas and geopandas are libraries outside the repository, so
  the table is modelled from section 3 of the spec ("a tabular geospatial result set:
  rows are individual measurement segments, columns include identifiers ..., a
  geolocation (point geometry), and one or more measured values"). A cell is a number,
  a point, or missing (NaN, NaT). A number is an integer or a finite float, kept as the
  rational that it denotes; where the code computes with floats or with 64-bit integers
  the model says so at that place. A row is a record from column
  names to cells, a column that a row lacks reads as missing. A table has its column
  names, its rows, each with its index label, and for a GeoDataFrame its coordinate
  reference system.
\<close>

datatype cell = Num rat | Pt rat rat | NaN

type_synonym row = "(string \<times> cell) list"

record frame =
  crs :: "string option"
  columns :: "string list"
  rows :: "(cell \<times> row) list"

definition cell_of :: "row \<Rightarrow> string \<Rightarrow> cell" where
  "cell_of r c = (case map_of r c of Some v \<Rightarrow> v | None \<Rightarrow> NaN)"

text \<open>\<open>gdf.index\<close>: the labels of the rows, in row order.\<close>

definition frame_index :: "frame \<Rightarrow> cell list" where
  "frame_index f = map fst (rows f)"

text \<open>The default index of a new table: \<open>0, 1, 2, ...\<close>\<close>

definition range_index :: "row list \<Rightarrow> (cell \<times> row) list" where
  "range_index rs = zip (map (\<lambda>i. Num (of_nat i)) [0..<length rs]) rs"

text \<open>
  Modelled from the spec: \<open>sliderule.emptyframe\<close> belongs to the client library. It is
  the result table with no rows (a GeoDataFrame with only its geometry column); the
  reference system that the library gives it is not visible in the sources and is taken
  as a parameter.
\<close>

definition emptyframe :: "string option \<Rightarrow> frame" where
  "emptyframe c = \<lparr>crs = c, columns = [''geometry''], rows = []\<rparr>"

definition first_seen :: "'a list \<Rightarrow> 'a list" where
  "first_seen xs = rev (remdups (rev xs))"

text \<open>
  Modelled from the spec: \<open>pandas.concat\<close> of tables, one under the other. It raises
  ValueError on an empty list ("No objects to concatenate"); the columns are those of
  all tables in the order of their first appearance. For tables with geometry, geopandas
  looks for the one reference system of the result: tables that have none are passed
  over, one system among the others is the system of the result, and two different
  systems raise ValueError ("Cannot determine common CRS for concatenation inputs").
\<close>

definition common_crs :: "frame list \<Rightarrow> error + string option" where
  "common_crs fs =
     (case remdups (List.map_filter crs fs) of
        [] \<Rightarrow> Inr None
      | [c] \<Rightarrow> Inr (Some c)
      | _ \<Rightarrow> Inl ValueError)"

definition pd_concat :: "frame list \<Rightarrow> error + frame" where
  "pd_concat fs =
     (case fs of
        [] \<Rightarrow> Inl ValueError
      | _ \<Rightarrow> and_then (common_crs fs) (\<lambda>c.
               Inr \<lparr>crs = c,
                    columns = first_seen (concat (map columns fs)),
                    rows = concat (map rows fs)\<rparr>))"

text \<open>
  Modelled from the spec: \<open>pandas.DataFrame.from_dict\<close> of a dict of columns. All
  columns must have the same length (ValueError otherwise); row \<open>i\<close> holds element
  \<open>i\<close> of each.
\<close>

definition from_dict :: "(string \<times> cell list) list \<Rightarrow> error + frame" where
  "from_dict data =
     (case data of
        [] \<Rightarrow> Inr \<lparr>crs = None, columns = [], rows = []\<rparr>
      | (_, vs) # _ \<Rightarrow>
          if list_all (\<lambda>(k, ws). length ws = length vs) data
          then Inr \<lparr>crs = None, columns = map fst data,
                    rows = range_index (map (\<lambda>i. map (\<lambda>(k, ws). (k, ws ! i)) data) [0..<length vs])\<rparr>
          else Inl ValueError)"

text \<open>
  Modelled from the spec: \<open>df[c]\<close> is pandas code, outside the repository. On the
  result table it gives the column, and raises KeyError when the table has no such column.
\<close>

definition frame_col :: "frame \<Rightarrow> string \<Rightarrow> error + cell list" where
  "frame_col f c =
     (if c \<in> set (columns f) then Inr (map (\<lambda>(l, r). cell_of r c) (rows f))
      else Inl (KeyError c))"

text \<open>
  Modelled from the spec: \<open>df.drop(columns=cs)\<close> is pandas code. It removes the
  columns from the result table, and raises KeyError when one of them is not a column.
\<close>

definition drop_columns :: "string list \<Rightarrow> frame \<Rightarrow> error + frame" where
  "drop_columns cs f =
     (case filter (\<lambda>c. c \<notin> set (columns f)) cs of
        c # _ \<Rightarrow> Inl (KeyError c)
      | [] \<Rightarrow> Inr (f\<lparr>columns := filter (\<lambda>c. c \<notin> set cs) (columns f),
                      rows := map (\<lambda>(l, r). (l, filter (\<lambda>(k, v). k \<notin> set cs) r)) (rows f)\<rparr>))"

text \<open>
  Modelled from the spec: \<open>geopandas.points_from_xy\<close> is library code. It gives the
  point geometry of a row from its two coordinates; a missing coordinate gives no point.
\<close>

definition point_from_xy :: "cell \<Rightarrow> cell \<Rightarrow> cell" where
  "point_from_xy x y = (case (x, y) of (Num a, Num b) \<Rightarrow> Pt a b | _ \<Rightarrow> NaN)"

text \<open>
  Modelled from the spec: \<open>geopandas.GeoDataFrame(df, geometry=geometry, crs=c)\<close> is
  library code. It gives the table its geometry column and its reference system.
\<close>

definition GeoDataFrame :: "frame \<Rightarrow> cell list \<Rightarrow> string \<Rightarrow> frame" where
  "GeoDataFrame df geometry c =
     \<lparr>crs = Some c,
      columns = (if ''geometry'' \<in> set (columns df) then columns df else columns df @ [''geometry'']),
      rows = map (\<lambda>((l, r), g). (l, AList.update ''geometry'' g r)) (zip (rows df) geometry)\<rparr>"

text \<open>
  Modelled from the spec: \<open>gdf.to_crs(target)\<close> is geopandas code. Every geometry
  is reprojected (by \<open>proj\<close>, a function of the two reference systems, which
  stands for the projection library) and the table takes
  the target system. A table without a reference system, or no target, raises ValueError.
  Labels and the other columns are not touched.
\<close>

definition to_crs :: "(string \<Rightarrow> string \<Rightarrow> cell \<Rightarrow> cell) \<Rightarrow> string option \<Rightarrow> frame \<Rightarrow> error + frame" where
  "to_crs proj target f =
     (case (crs f, target) of
        (Some src, Some dst) \<Rightarrow>
          Inr (f\<lparr>crs := Some dst,
                 rows := map (\<lambda>(l, r). (l, map (\<lambda>(k, v). (k, if k = ''geometry'' then proj src dst v else v)) r))
                           (rows f)\<rparr>)
      | _ \<Rightarrow> Inl ValueError)"

text \<open>
  Modelled from the spec: \<open>gdf.set_index(key, inplace=True)\<close> is pandas code. The
  column becomes the labels of the rows and leaves the columns; KeyError when the table
  has no such column.
\<close>

definition set_index :: "string \<Rightarrow> frame \<Rightarrow> error + frame" where
  "set_index key f =
     (if key \<in> set (columns f)
      then Inr (f\<lparr>columns := filter (\<lambda>c. c \<noteq> key) (columns f),
                  rows := map (\<lambda>(l, r). (cell_of r key, filter (\<lambda>(k, v). k \<noteq> key) r)) (rows f)\<rparr>)
      else Inl (KeyError key))"

text \<open>
  Modelled from the spec: \<open>gdf.sort_index(inplace=True)\<close> is pandas code. It puts the
  rows in the ascending order of their labels, missing labels last. Points have no
  order (TypeError). Rows with equal labels keep their order here; pandas does not
  promise that, and nothing below depends on it.
\<close>

fun label_key :: "cell \<Rightarrow> nat \<times> rat" where
  "label_key (Num n) = (0, n)"
| "label_key NaN = (1, 0)"
| "label_key (Pt x y) = (2, 0)"

fun is_point :: "cell \<Rightarrow> bool" where
  "is_point (Pt x y) = True"
| "is_point _ = False"

definition sort_index :: "frame \<Rightarrow> error + frame" where
  "sort_index f =
     (if list_ex is_point (frame_index f) then Inl TypeError
      else Inr (f\<lparr>rows := sort_key (\<lambda>(l, r). label_key l) (rows f)\<rparr>))"

text \<open>
  Modelled from the spec: \<open>gdf[~gdf.index.duplicated()]\<close> is pandas code. Of the rows
  with one label, the first stays.
\<close>

fun drop_duplicated :: "cell list \<Rightarrow> (cell \<times> row) list \<Rightarrow> (cell \<times> row) list" where
  "drop_duplicated seen [] = []"
| "drop_duplicated seen ((l, r) # rs) =
     (if l \<in> set seen then drop_duplicated seen rs
      else (l, r) # drop_duplicated (l # seen) rs)"

subsection \<open>Merging two result tables\<close>

text \<open>
  Modelled from the spec: \<open>pandas.merge\<close> is library code. The spec's result merger
  "joins two result tables on a shared identifier column", with a left join: every row
  of the left table, in order, is joined with each row of the right table that has the
  same identifier, in order, and stands alone (the right columns missing) when there is
  none. The identifier column appears once; any other column name that both tables
  have takes the left suffix on the left and the right suffix on the right. The result
  has the default index. A suffixed name that meets another column of the same name is
  not treated apart (recent pandas raises on it); no statement below depends on that.
\<close>

definition rename :: "(string \<Rightarrow> string) \<Rightarrow> row \<Rightarrow> row" where
  "rename f r = map (\<lambda>(k, v). (f k, v)) r"

definition left_name :: "string \<Rightarrow> string \<Rightarrow> frame \<Rightarrow> string \<Rightarrow> string" where
  "left_name on sfx right c = (if c \<noteq> on \<and> c \<in> set (columns right) then c @ sfx else c)"

definition right_name :: "string \<Rightarrow> string \<Rightarrow> frame \<Rightarrow> string \<Rightarrow> string" where
  "right_name on sfx left c = (if c \<noteq> on \<and> c \<in> set (columns left) then c @ sfx else c)"

definition matches :: "string \<Rightarrow> row \<Rightarrow> frame \<Rightarrow> row list" where
  "matches on lrow right = filter (\<lambda>rrow. cell_of rrow on = cell_of lrow on) (map snd (rows right))"

definition join_row :: "string \<Rightarrow> string \<times> string \<Rightarrow> frame \<Rightarrow> frame \<Rightarrow> row \<Rightarrow> row list" where
  "join_row on suffixes left right lrow =
     (let l = rename (left_name on (fst suffixes) right) lrow
      in case matches on lrow right of
           [] \<Rightarrow> [l]
         | ms \<Rightarrow> map (\<lambda>rrow. l @ rename (right_name on (snd suffixes) left)
                                    (filter (\<lambda>(k, v). k \<noteq> on) rrow)) ms)"

definition merge_left :: "string \<Rightarrow> string \<times> string \<Rightarrow> frame \<Rightarrow> frame \<Rightarrow> error + frame" where
  "merge_left on suffixes left right =
     (if on \<notin> set (columns left) \<or> on \<notin> set (columns right) then Inl (KeyError on)
      else Inr \<lparr>crs = None,
                columns = map (left_name on (fst suffixes) right) (columns left)
                          @ map (right_name on (snd suffixes) left) (filter (\<lambda>c. c \<noteq> on) (columns right)),
                rows = range_index (concat (map (\<lambda>(l, lrow). join_row on suffixes left right lrow) (rows left)))\<rparr>)"

text \<open>
  Modelled from the spec: \<open>DataFrame.set_axis(labels)\<close> gives the rows new labels and
  raises ValueError when there are not as many labels as rows.
\<close>

definition set_axis :: "cell list \<Rightarrow> frame \<Rightarrow> error + frame" where
  "set_axis labels f =
     (if length labels = length (rows f) then Inr (f\<lparr>rows := zip labels (map snd (rows f))\<rparr>)
      else Inl ValueError)"

text \<open>
  \<^verbatim>\<open>
  gdf = geopandas.pd.merge(atl08, atl06, on='extent_id', how='left',
            suffixes=('.atl08','.atl06')).set_axis(atl08.index)
  \<close>
\<close>

definition merge_atl08_atl06 :: "frame \<Rightarrow> frame \<Rightarrow> error + frame" where
  "merge_atl08_atl06 atl08 atl06 =
     and_then (merge_left ''extent_id'' (''.atl08'', ''.atl06'') atl08 atl06)
       (set_axis (frame_index atl08))"

section \<open>Reading a standard product: \<open>s3_retrieve\<close>\<close>

text \<open>
  What \<open>s3_retrieve\<close> takes from outside the notebook: \<open>h5.h5p\<close> (a read of
  datasets from a granule, which returns a dict of arrays or raises), the global name
  \<open>asset\<close> (the notebook never assigns it; \<open>None\<close> is the unbound name),
  \<open>geopandas.overlay\<close> with \<open>how='intersection'\<close>, the projection behind
  \<open>to_crs\<close>, the reference system of the library's empty table, and numpy's
  conversion of one \<open>delta_time\<close> (a float, in seconds) to nanoseconds,
  \<open>(delta_time*1e9).astype('timedelta64[ns]')\<close>: a float product and a cast to a
  64-bit integer, \<open>None\<close> where the result is not a time (NaT).
\<close>

record ext =
  h5p :: "string list \<Rightarrow> string \<Rightarrow> string \<Rightarrow> error + (string \<times> cell list) list"
  asset :: "string option"
  overlay :: "frame \<Rightarrow> frame \<Rightarrow> error + frame"
  proj :: "string \<Rightarrow> string \<Rightarrow> cell \<Rightarrow> cell"
  empty_crs :: "string option"
  timedelta_ns :: "rat \<Rightarrow> int option"

text \<open>
  \<^verbatim>\<open>
  def s3_retrieve(granule, **kwargs):
      kwargs.setdefault('lon_key','longitude')
      kwargs.setdefault('lat_key','latitude')
      kwargs.setdefault('index_key','time')
      kwargs.setdefault('polygon',None)
  \<close>
\<close>

record kwargs =
  lon_key :: "string option"
  lat_key :: "string option"
  index_key :: "string option"
  polygon :: "frame option"

definition setdefault :: "'a option \<Rightarrow> 'a \<Rightarrow> 'a" where
  "setdefault given d = (case given of Some v \<Rightarrow> v | None \<Rightarrow> d)"

text \<open>
  \<^verbatim>\<open>
      if (PRD == 'ATL06'):
          segment_group = "land_ice_segments"
          segment_key = 'segment_id'
          vnames = ['segment_id','delta_time','latitude','longitude', ...]
      elif (PRD == 'ATL08'):
          segment_group = "land_segments"
          segment_key = 'segment_id_beg'
          vnames = ['segment_id_beg','segment_id_end','delta_time', ...]
  \<close>
  There is no \<open>else\<close>: for any other product the two names stay unbound.
\<close>

definition variables :: "string \<Rightarrow> (string \<times> string list) option" where
  "variables PRD =
     (if PRD = ''ATL06'' then
        Some (''land_ice_segments'',
          [''segment_id'', ''delta_time'', ''latitude'', ''longitude'',
           ''h_li'', ''h_li_sigma'', ''atl06_quality_summary'',
           ''fit_statistics/dh_fit_dx'', ''fit_statistics/dh_fit_dy'',
           ''fit_statistics/dh_fit_dx_sigma'', ''fit_statistics/n_fit_photons'',
           ''fit_statistics/h_expected_rms'', ''fit_statistics/h_robust_sprd'',
           ''fit_statistics/w_surface_window_final'', ''fit_statistics/h_mean''])
      else if PRD = ''ATL08'' then
        Some (''land_segments'',
          [''segment_id_beg'', ''segment_id_end'', ''delta_time'',
           ''latitude'', ''longitude'', ''brightness_flag'', ''layer_flag'',
           ''msw_flag'', ''night_flag'', ''terrain_flg'', ''urban_flag'',
           ''segment_landcover'', ''segment_snowcover'', ''segment_watermask'',
           ''terrain/h_te_best_fit'', ''terrain/h_te_uncertainty'',
           ''terrain/terrain_slope'', ''terrain/n_te_photons'',
           ''canopy/h_canopy'', ''canopy/h_canopy_uncertainty'',
           ''canopy/canopy_flag'', ''canopy/n_ca_photons''])
      else None)"

text \<open>\<open>gt = dict(gt1l=10,gt1r=20,gt2l=30,gt2r=40,gt3l=50,gt3r=60)\<close>\<close>

definition gt :: "(string \<times> int) list" where
  "gt = [(''gt1l'', 10), (''gt1r'', 20), (''gt2l'', 30), (''gt2r'', 40), (''gt3l'', 50), (''gt3r'', 60)]"

text \<open>
  \<open>atlas_sdp_epoch = np.datetime64('2018-01-01T00:00:00')\<close>, in nanoseconds since 1970.
\<close>

definition atlas_sdp_epoch :: int where
  "atlas_sdp_epoch = 1514764800 * 1000000000"

text \<open>
  \<open>atlas_sdp_epoch + delta_time\<close> is an addition of 64-bit integers: it wraps around,
  and the least 64-bit integer is the value that numpy reads as NaT.
\<close>

definition wrap64 :: "int \<Rightarrow> int" where
  "wrap64 n = (n + 2 ^ 63) mod 2 ^ 64 - 2 ^ 63"

definition datetime_add :: "int \<Rightarrow> int \<Rightarrow> cell" where
  "datetime_add t n = (if wrap64 (t + n) = - (2 ^ 63) then NaN else Num (of_int (wrap64 (t + n))))"

definition to_time :: "ext \<Rightarrow> cell \<Rightarrow> cell" where
  "to_time x c =
     (case c of
        Num d \<Rightarrow> (case timedelta_ns x d of Some n \<Rightarrow> datetime_add atlas_sdp_epoch n | None \<Rightarrow> NaN)
      | _ \<Rightarrow> NaN)"

definition to_times :: "ext \<Rightarrow> cell list \<Rightarrow> error + cell list" where
  "to_times x dt = (if list_ex is_point dt then Inl TypeError else Inr (map (to_time x) dt))"

definition basename :: "string \<Rightarrow> string" where
  "basename p = rev (takeWhile (\<lambda>c. c \<noteq> CHR ''/'') (rev p))"

text \<open>
  The body of the \<open>try\<close>; every exception it raises is caught by \<open>except: pass\<close>.
  \<^verbatim>\<open>
          try:
              hidatasets = h5.h5p(geodatasets, granule, asset)
              data = {posixpath.basename(key):var for key,var in hidatasets.items()}
              delta_time = (data['delta_time']*1e9).astype('timedelta64[ns]')
              data['time'] = gpd.pd.to_datetime(atlas_sdp_epoch + delta_time)
          except:
              pass
  \<close>
\<close>

definition try_beam :: "ext \<Rightarrow> string \<Rightarrow> string list \<Rightarrow> error + (string \<times> cell list) list" where
  "try_beam x granule geodatasets =
     (case asset x of
        None \<Rightarrow> Inl (NameError ''asset'')
      | Some a \<Rightarrow>
          and_then (h5p x geodatasets granule a) (\<lambda>hidatasets.
          let data = foldl (\<lambda>d (key, var). AList.update (basename key) var d) [] hidatasets in
          and_then (dict_get data ''delta_time'') (\<lambda>delta_time.
          and_then (to_times x delta_time) (\<lambda>time.
          Inr (AList.update ''time'' time data)))))"

text \<open>
  The \<open>else\<close> of the \<open>try\<close>, which no handler covers.
  \<^verbatim>\<open>
          else:
              data['rgt'] = [int(TRK)]*len(data['delta_time'])
              data['cycle'] = [int(CYCL)]*len(data['delta_time'])
              data['gt'] = [gt[gtx]]*len(data['delta_time'])
              frames.append(gpd.pd.DataFrame.from_dict(data))
  \<close>
  \<open>TRK\<close> and \<open>CYCL\<close> are groups 8 and 9 of the match.
\<close>

definition else_beam :: "string list \<Rightarrow> string \<Rightarrow> (string \<times> cell list) list \<Rightarrow> error + frame" where
  "else_beam parts gtx data =
     and_then (int_of_digits (parts ! 8)) (\<lambda>TRK.
     and_then (dict_get data ''delta_time'') (\<lambda>dt.
     let data1 = AList.update ''rgt'' (replicate (length dt) (Num (of_int TRK))) data in
     and_then (int_of_digits (parts ! 9)) (\<lambda>CYCL.
     let data2 = AList.update ''cycle'' (replicate (length dt) (Num (of_int CYCL))) data1 in
     and_then (dict_get gt gtx) (\<lambda>b.
     let data3 = AList.update ''gt'' (replicate (length dt) (Num (of_int b))) data2 in
     from_dict data3))))"

text \<open>
  \<^verbatim>\<open>
      frames = []
      kwds = dict(startrow=0,numrows=-1)
      for gtx in ['gt1l','gt1r','gt2l','gt2r','gt3l','gt3r']:
          geodatasets = [dict(dataset=f'{gtx}/{segment_group}/{v}',**kwds) for v in vnames]
          try: ... except: pass
          else: ...
  \<close>
  The list of datasets is built before the \<open>try\<close>: with \<open>vnames\<close> unbound it raises
  on the first beam.
\<close>

fun beams :: "ext \<Rightarrow> string \<Rightarrow> string list \<Rightarrow> string list \<Rightarrow> frame list \<Rightarrow> error + frame list" where
  "beams x granule parts [] frames = Inr frames"
| "beams x granule parts (gtx # rest) frames =
     (case variables (parts ! 0) of
        None \<Rightarrow> Inl (UnboundLocalError ''vnames'')
      | Some (segment_group, vnames) \<Rightarrow>
          (case try_beam x granule (map (\<lambda>v. gtx @ ''/'' @ segment_group @ ''/'' @ v) vnames) of
             Inl _ \<Rightarrow> beams x granule parts rest frames
           | Inr data \<Rightarrow>
               and_then (else_beam parts gtx data) (\<lambda>f.
               beams x granule parts rest (frames @ [f]))))"

text \<open>
  \<^verbatim>\<open>
      if kwargs['polygon'] is not None:
          gdf = gpd.overlay(gdf.to_crs(kwargs['polygon'].crs),
              kwargs['polygon'], how='intersection')
  \<close>
\<close>

definition clip :: "ext \<Rightarrow> frame option \<Rightarrow> frame \<Rightarrow> error + frame" where
  "clip x pg gdf =
     (case pg of
        None \<Rightarrow> Inr gdf
      | Some p \<Rightarrow> and_then (to_crs (proj x) (crs p) gdf) (\<lambda>g. overlay x g p))"

text \<open>
  \<^verbatim>\<open>
      lon_key,lat_key = (kwargs['lon_key'],kwargs['lat_key'])
      geometry = gpd.points_from_xy(df[lon_key], df[lat_key])
      gdf = gpd.GeoDataFrame(df.drop(columns=[lon_key,lat_key]),
          geometry=geometry,crs='EPSG:4326')
      (the intersection with the polygon)
      gdf.set_index(kwargs['index_key'], inplace=True)
      gdf.sort_index(inplace=True)
      gdf = gdf[~gdf.index.duplicated()]
      return gdf.to_crs('EPSG:4326')
  \<close>
  \<open>located\<close> is the table up to the intersection, \<open>geoframe\<close> the whole.
\<close>

definition located :: "ext \<Rightarrow> kwargs \<Rightarrow> frame \<Rightarrow> error + frame" where
  "located x kw df =
     (let lon_k = setdefault (lon_key kw) ''longitude'';
          lat_k = setdefault (lat_key kw) ''latitude''
      in
      and_then (frame_col df lon_k) (\<lambda>xs.
      and_then (frame_col df lat_k) (\<lambda>ys.
      and_then (drop_columns [lon_k, lat_k] df) (\<lambda>df'.
      clip x (polygon kw) (GeoDataFrame df' (map2 point_from_xy xs ys) ''EPSG:4326'')))))"

definition geoframe :: "ext \<Rightarrow> kwargs \<Rightarrow> frame \<Rightarrow> error + frame" where
  "geoframe x kw df =
     and_then (located x kw df) (\<lambda>gdf1.
     and_then (set_index (setdefault (index_key kw) ''time'') gdf1) (\<lambda>gdf2.
     and_then (sort_index gdf2) (\<lambda>gdf3.
     to_crs (proj x) (Some ''EPSG:4326'') (gdf3\<lparr>rows := drop_duplicated [] (rows gdf3)\<rparr>))))"

text \<open>
  \<^verbatim>\<open>
      PRD,HEM,YY,MM,DD,HH,MN,SS,TRK,CYCL,GRN,RL,VRS,AUX=rx.findall(granule).pop()
      (the loop over the beams)
      try:
          df = gpd.pd.concat(frames)
      except:
          return sliderule.emptyframe()
      (the conversion to a GeoDataFrame)
  \<close>
\<close>

definition s3_retrieve :: "ext \<Rightarrow> string \<Rightarrow> kwargs \<Rightarrow> error + frame" where
  "s3_retrieve x granule kw =
     and_then (unpack_granule granule) (\<lambda>parts.
     and_then (beams x granule parts [''gt1l'', ''gt1r'', ''gt2l'', ''gt2r'', ''gt3l'', ''gt3r''] []) (\<lambda>frames.
     case pd_concat frames of
       Inl _ \<Rightarrow> Inr (emptyframe (empty_crs x))
     | Inr df \<Rightarrow> geoframe x kw df))"

section \<open>The request cells\<close>

text \<open>
  \<^verbatim>\<open>
  resources = earthdata.cmr(short_name='ATL03', polygon=poly,
                  time_start='2018-10-19', time_end='2018-10-20')
  granule = resources[0]
  \<close>
  \<open>earthdata.cmr\<close> is the metadata search of the client library: a function of the
  query that returns a list of names or raises.
\<close>

record query =
  short_name :: string
  search_polygon :: pyval
  time_start :: string
  time_end :: string

definition find_granule :: "(query \<Rightarrow> error + string list) \<Rightarrow> pyval \<Rightarrow> error + string" where
  "find_granule cmr poly =
     and_then (cmr \<lparr>short_name = ''ATL03'', search_polygon = poly,
                    time_start = ''2018-10-19'', time_end = ''2018-10-20''\<rparr>)
       (\<lambda>resources. py_index resources 0)"

text \<open>The search cell followed by the extraction that opens the next cell.\<close>

definition granule_parameters :: "(query \<Rightarrow> error + string list) \<Rightarrow> pyval \<Rightarrow> error + string list" where
  "granule_parameters cmr poly = and_then (find_granule cmr poly) unpack_granule"

text \<open>
  A request dispatcher (\<open>icesat2.atl06\<close>, \<open>atl06p\<close>, \<open>atl06sp\<close>, \<open>atl08p\<close>) is a
  function of the client library: it receives the parameter mapping and the other
  arguments and returns a result table or raises. A cell returns the calls it made, in
  order, next to its result.
\<close>

record call =
  api :: string
  parms :: dict
  opts :: dict

type_synonym dispatcher = "call \<Rightarrow> error + frame"

text \<open>
  \<^verbatim>\<open>
  parms = {
      "poly": region,
      "srt": icesat2.SRT_LAND,
      "cnf": icesat2.CNF_SURFACE_HIGH,
      "ats": 10.0,
      "cnt": 10,
      "len": 40.0,
      "res": 20.0,
      "maxi": 1
  }
  gdf = icesat2.atl06p(parms)
  print("Reference Ground Tracks: {}".format(gdf["rgt"].unique()))
  print("Cycles: {}".format(gdf["cycle"].unique()))
  \<close>
  (boulder\_watershed\_demo). The two constants of the library are parameters.
\<close>

definition boulder_parms :: "pyval \<Rightarrow> pyval \<Rightarrow> dict" where
  "boulder_parms SRT_LAND CNF_SURFACE_HIGH =
     [(''poly'', PList region), (''srt'', SRT_LAND), (''cnf'', CNF_SURFACE_HIGH),
      (''ats'', PNum 10.0), (''cnt'', PInt 10), (''len'', PNum 40.0),
      (''res'', PNum 20.0), (''maxi'', PInt 1)]"

definition boulder_request :: "dispatcher \<Rightarrow> pyval \<Rightarrow> pyval \<Rightarrow> call list \<times> (error + frame)" where
  "boulder_request d SRT_LAND CNF_SURFACE_HIGH =
     (let c = \<lparr>api = ''atl06p'', parms = boulder_parms SRT_LAND CNF_SURFACE_HIGH, opts = []\<rparr>
      in ([c],
          and_then (d c) (\<lambda>gdf.
          and_then (frame_col gdf ''rgt'') (\<lambda>rgt.
          and_then (frame_col gdf ''cycle'') (\<lambda>cycle. Inr gdf)))))"

text \<open>
  \<^verbatim>\<open>
  granule = '_20181016104402_02720106_006_02.h5'
  region = sliderule.toregion("../data/grandmesa.geojson")
  parms = { "poly": region["poly"], "srt": icesat2.SRT_LAND,
            "cnf": icesat2.CNF_SURFACE_HIGH, "ats": 10.0, "cnt": 10,
            "len": 40.0, "res": 20.0, "maxi": 1 }
  sdp = icesat2.atl06sp(parms, resources=['ATL06'+granule])
  sr = icesat2.atl06p(parms, resources=['ATL03_20181016104402_02720106_006_02.h5'])
  \<close>
  (the subsetting notebook). \<open>sliderule.toregion\<close> reads a file: a function of the
  path that returns a structure or raises.
\<close>

definition subsetting_parms :: "pyval \<Rightarrow> pyval \<Rightarrow> pyval \<Rightarrow> error + dict" where
  "subsetting_parms rgn SRT_LAND CNF_SURFACE_HIGH =
     and_then (py_getitem rgn ''poly'') (\<lambda>poly.
       Inr [(''poly'', poly), (''srt'', SRT_LAND), (''cnf'', CNF_SURFACE_HIGH),
            (''ats'', PNum 10.0), (''cnt'', PInt 10), (''len'', PNum 40.0),
            (''res'', PNum 20.0), (''maxi'', PInt 1)])"

definition subsetting_requests ::
  "dispatcher \<Rightarrow> (string \<Rightarrow> error + pyval) \<Rightarrow> pyval \<Rightarrow> pyval \<Rightarrow> call list \<times> (error + frame \<times> frame)" where
  "subsetting_requests d toregion SRT_LAND CNF_SURFACE_HIGH =
     (case and_then (toregion ''../data/grandmesa.geojson'')
             (\<lambda>rgn. subsetting_parms rgn SRT_LAND CNF_SURFACE_HIGH) of
        Inl e \<Rightarrow> ([], Inl e)
      | Inr p \<Rightarrow>
          (let c1 = \<lparr>api = ''atl06sp'', parms = p,
                      opts = [(''resources'', PList [PStr (''ATL06'' @ ''_20181016104402_02720106_006_02.h5'')])]\<rparr>;
               c2 = \<lparr>api = ''atl06p'', parms = p,
                      opts = [(''resources'', PList [PStr ''ATL03_20181016104402_02720106_006_02.h5''])]\<rparr>
           in case d c1 of
                Inl e \<Rightarrow> ([c1], Inl e)
              | Inr sdp \<Rightarrow> ([c1, c2], and_then (d c2) (\<lambda>sr. Inr (sdp, sr)))))"

text \<open>
  \<^verbatim>\<open>
  parms = {
      "poly": sliderule.toregion('grandmesa.geojson')['poly'],
      "t0": '2019-11-14T00:00:00Z',
      "t1": '2019-11-15T00:00:00Z',
      "srt": icesat2.SRT_LAND,
      "len": 100,
      "res": 100,
      "pass_invalid": True,
      "atl08_class": ["atl08_ground", "atl08_canopy", "atl08_top_of_canopy"],
      "atl08_fields": ["h_dif_ref"],
      "phoreal": {"binsize": 1.0, "geoloc": "center", "use_abs_h": False, "send_waveform": True}
  }
  atl08 = icesat2.atl08p(parms, keep_id=True)
  atl06 = icesat2.atl06p(parms, keep_id=True)
  \<close>
  (the PhoREAL notebook). The cells between the two requests plot \<open>atl08\<close> and add a
  column to it; none of them names \<open>parms\<close>.
\<close>

definition phoreal_parms :: "pyval \<Rightarrow> pyval \<Rightarrow> error + dict" where
  "phoreal_parms rgn SRT_LAND =
     and_then (py_getitem rgn ''poly'') (\<lambda>poly.
       Inr [(''poly'', poly),
            (''t0'', PStr ''2019-11-14T00:00:00Z''),
            (''t1'', PStr ''2019-11-15T00:00:00Z''),
            (''srt'', SRT_LAND),
            (''len'', PInt 100),
            (''res'', PInt 100),
            (''pass_invalid'', PBool True),
            (''atl08_class'', PList [PStr ''atl08_ground'', PStr ''atl08_canopy'', PStr ''atl08_top_of_canopy'']),
            (''atl08_fields'', PList [PStr ''h_dif_ref'']),
            (''phoreal'', PDict [(''binsize'', PNum 1.0), (''geoloc'', PStr ''center''),
                                 (''use_abs_h'', PBool False), (''send_waveform'', PBool True)])])"

definition phoreal_requests ::
  "dispatcher \<Rightarrow> (string \<Rightarrow> error + pyval) \<Rightarrow> pyval \<Rightarrow> call list \<times> (error + frame \<times> frame)" where
  "phoreal_requests d toregion SRT_LAND =
     (case and_then (toregion ''grandmesa.geojson'') (\<lambda>rgn. phoreal_parms rgn SRT_LAND) of
        Inl e \<Rightarrow> ([], Inl e)
      | Inr p \<Rightarrow>
          (let c1 = \<lparr>api = ''atl08p'', parms = p, opts = [(''keep_id'', PBool True)]\<rparr>;
               c2 = \<lparr>api = ''atl06p'', parms = p, opts = [(''keep_id'', PBool True)]\<rparr>
           in case d c1 of
                Inl e \<Rightarrow> ([c1], Inl e)
              | Inr atl08 \<Rightarrow> ([c1, c2], and_then (d c2) (\<lambda>atl06. Inr (atl08, atl06)))))"

text \<open>
  \<^verbatim>\<open>
  PRD,HEM,YY,MM,DD,HH,MN,SS,TRK,CYCL,GRN,RL,VRS,AUX=rx.findall(granule).pop()
  parms = { "poly":poly, "cnf": 4, "ats": 20.0, "cnt": 10,
            "len": 40.0, "res": 20.0, "maxi": 1 }
  gdf = icesat2.atl06(parms, granule)
  print("Reference Ground Tracks: {} to {}".format(min(gdf["rgt"]), max(gdf["rgt"])))
  print("Cycle: {} to {}".format(min(gdf["cycle"]), max(gdf["cycle"])))
  print("Retrieved {} points from SlideRule".format(len(gdf["h_mean"])))
  \<close>
  (single\_track\_demo); \<open>poly\<close> is what \<open>io.to_region(box_lon, box_lat)\<close> returned.
\<close>

definition single_track_parms :: "pyval \<Rightarrow> dict" where
  "single_track_parms poly =
     [(''poly'', poly), (''cnf'', PInt 4), (''ats'', PNum 20.0), (''cnt'', PInt 10),
      (''len'', PNum 40.0), (''res'', PNum 20.0), (''maxi'', PInt 1)]"

text \<open>
  Python's \<open>min\<close> and \<open>max\<close> of the values of a column: ValueError on no value;
  the first value, replaced by each later one that is less (greater). A comparison with
  a missing value is false, a comparison with a point raises TypeError.
\<close>

definition py_lt :: "cell \<Rightarrow> cell \<Rightarrow> error + bool" where
  "py_lt a b =
     (if is_point a \<or> is_point b then Inl TypeError
      else Inr (case (a, b) of (Num u, Num v) \<Rightarrow> u < v | _ \<Rightarrow> False))"

fun min_loop :: "cell \<Rightarrow> cell list \<Rightarrow> error + cell" where
  "min_loop m [] = Inr m"
| "min_loop m (v # vs) = and_then (py_lt v m) (\<lambda>b. min_loop (if b then v else m) vs)"

fun max_loop :: "cell \<Rightarrow> cell list \<Rightarrow> error + cell" where
  "max_loop m [] = Inr m"
| "max_loop m (v # vs) = and_then (py_lt m v) (\<lambda>b. max_loop (if b then v else m) vs)"

definition py_min :: "cell list \<Rightarrow> error + cell" where
  "py_min vs = (case vs of [] \<Rightarrow> Inl ValueError | v # rest \<Rightarrow> min_loop v rest)"

definition py_max :: "cell list \<Rightarrow> error + cell" where
  "py_max vs = (case vs of [] \<Rightarrow> Inl ValueError | v # rest \<Rightarrow> max_loop v rest)"

text \<open>\<open>min(gdf[c])\<close> and then \<open>max(gdf[c])\<close>, as the arguments of \<open>format\<close>.\<close>

definition min_max :: "frame \<Rightarrow> string \<Rightarrow> error + cell \<times> cell" where
  "min_max gdf c =
     and_then (frame_col gdf c) (\<lambda>vs.
     and_then (py_min vs) (\<lambda>lo.
     and_then (frame_col gdf c) (\<lambda>ws.
     and_then (py_max ws) (\<lambda>hi. Inr (lo, hi)))))"

definition single_track_request :: "dispatcher \<Rightarrow> pyval \<Rightarrow> string \<Rightarrow> call list \<times> (error + frame)" where
  "single_track_request d poly granule =
     (case unpack_granule granule of
        Inl e \<Rightarrow> ([], Inl e)
      | Inr parts \<Rightarrow>
          (let c = \<lparr>api = ''atl06'', parms = single_track_parms poly, opts = [(''resource'', PStr granule)]\<rparr>
           in ([c],
               and_then (d c) (\<lambda>gdf.
               and_then (min_max gdf ''rgt'') (\<lambda>rgt.
               and_then (min_max gdf ''cycle'') (\<lambda>cycle.
               and_then (frame_col gdf ''h_mean'') (\<lambda>h_mean. Inr gdf)))))))"


text \<open>
  \<^verbatim>\<open>
  parms = SRwidgets.build_atl06()
  elevations = [sliderule.emptyframe()]
  for poly in m.regions:
      parms["poly"] = poly
      elevations.append(icesat2.atl06p(parms))
  gdf = geopandas.pd.concat(elevations)
  \<close>
  (api\_widgets\_demo). What \<open>build_atl06\<close> returned and the regions drawn on the map
  are parameters.
\<close>

fun request_regions ::
  "dispatcher \<Rightarrow> dict \<Rightarrow> pyval list \<Rightarrow> frame list \<Rightarrow> call list \<times> (error + dict \<times> frame list)" where
  "request_regions d p [] elevations = ([], Inr (p, elevations))"
| "request_regions d p (poly # rest) elevations =
     (let p' = AList.update ''poly'' poly p;
          c = \<lparr>api = ''atl06p'', parms = p', opts = []\<rparr>
      in case d c of
           Inl e \<Rightarrow> ([c], Inl e)
         | Inr f \<Rightarrow>
             (let (cs, r) = request_regions d p' rest (elevations @ [f]) in (c # cs, r)))"

definition widgets_request ::
  "dispatcher \<Rightarrow> string option \<Rightarrow> dict \<Rightarrow> pyval list \<Rightarrow> call list \<times> (error + dict \<times> frame)" where
  "widgets_request d ecrs built regions =
     (let (cs, r) = request_regions d built regions [emptyframe ecrs]
      in (cs, and_then r (\<lambda>(p, elevations).
              and_then (pd_concat elevations) (\<lambda>gdf. Inr (p, gdf)))))"

section \<open>Example inputs\<close>

text \<open>
  Concrete inputs on which the theorems below are instantiated. \<open>h5p_demo\<close> serves one
  beam of an ATL06 granule, with two rows of the same time; \<open>h5p_unreachable\<close> is a
  service that cannot be reached.
\<close>

definition h5p_demo :: "string list \<Rightarrow> string \<Rightarrow> string \<Rightarrow> error + (string \<times> cell list) list" where
  "h5p_demo ds granule a =
     (if ds \<noteq> [] \<and> hd ds = ''gt1l/land_ice_segments/segment_id''
      then Inr [(''gt1l/land_ice_segments/segment_id'', [Num 7, Num 8, Num 9]),
                (''gt1l/land_ice_segments/delta_time'', [Num 30, Num 10, Num 30]),
                (''gt1l/land_ice_segments/latitude'', [Num 1, Num 2, Num 3]),
                (''gt1l/land_ice_segments/longitude'', [Num 4, Num 5, Num 6])]
      else Inl (External ''no such beam''))"


definition overlay_id :: "frame \<Rightarrow> frame \<Rightarrow> error + frame" where
  "overlay_id g p = Inr g"

definition proj_id :: "string \<Rightarrow> string \<Rightarrow> cell \<Rightarrow> cell" where
  "proj_id src dst c = c"

definition ns_demo :: "rat \<Rightarrow> int option" where
  "ns_demo d = Some (\<lfloor>d * 1000000000\<rfloor>)"

definition ext_demo :: ext where
  "ext_demo = \<lparr>h5p = h5p_demo, asset = Some ''icesat2'', overlay = overlay_id,
               proj = proj_id, empty_crs = None, timedelta_ns = ns_demo\<rparr>"


definition kw_none :: kwargs where
  "kw_none = \<lparr>lon_key = None, lat_key = None, index_key = None, polygon = None\<rparr>"

definition demo_frame :: frame where
  "demo_frame =
     \<lparr>crs = Some ''EPSG:4326'',
      columns = [''segment_id'', ''delta_time'', ''rgt'', ''cycle'', ''gt'', ''geometry''],
      rows =
        [(Num 1514764810000000000,
          [(''segment_id'', Num 8), (''delta_time'', Num 10),
           (''rgt'', Num 315), (''cycle'', Num 1), (''gt'', Num 10), (''geometry'', Pt 5 2)]),
         (Num 1514764830000000000,
          [(''segment_id'', Num 7), (''delta_time'', Num 30),
           (''rgt'', Num 315), (''cycle'', Num 1), (''gt'', Num 10), (''geometry'', Pt 4 1)])]\<rparr>"

text \<open>The table of the same run before \<open>set_index\<close>.\<close>

definition located_demo :: frame where
  "located_demo =
     \<lparr>crs = Some ''EPSG:4326'',
      columns = [''segment_id'', ''delta_time'', ''time'', ''rgt'', ''cycle'', ''gt'', ''geometry''],
      rows =
        [(Num 0,
          [(''segment_id'', Num 7), (''delta_time'', Num 30), (''time'', Num 1514764830000000000),
           (''rgt'', Num 315), (''cycle'', Num 1), (''gt'', Num 10), (''geometry'', Pt 4 1)]),
         (Num 1,
          [(''segment_id'', Num 8), (''delta_time'', Num 10), (''time'', Num 1514764810000000000),
           (''rgt'', Num 315), (''cycle'', Num 1), (''gt'', Num 10), (''geometry'', Pt 5 2)]),
         (Num 2,
          [(''segment_id'', Num 9), (''delta_time'', Num 30), (''time'', Num 1514764830000000000),
           (''rgt'', Num 315), (''cycle'', Num 1), (''gt'', Num 10), (''geometry'', Pt 6 3)])]\<rparr>"

definition atl08_demo :: frame where
  "atl08_demo = \<lparr>crs = Some ''EPSG:7912'', columns = [''extent_id'', ''h_canopy'', ''geometry''],
     rows = [(Num 100, [(''extent_id'', Num 1), (''h_canopy'', Num 12), (''geometry'', Pt 1 1)]),
             (Num 200, [(''extent_id'', Num 2), (''h_canopy'', Num 15), (''geometry'', Pt 2 2)])]\<rparr>"

definition atl06_demo :: frame where
  "atl06_demo = \<lparr>crs = Some ''EPSG:7912'', columns = [''extent_id'', ''h_mean'', ''geometry''],
     rows = [(Num 100, [(''extent_id'', Num 1), (''h_mean'', Num 1700), (''geometry'', Pt 1 1)])]\<rparr>"

definition atl06_repeated :: frame where
  "atl06_repeated = \<lparr>crs = Some ''EPSG:7912'', columns = [''extent_id'', ''h_mean'', ''geometry''],
     rows = [(Num 100, [(''extent_id'', Num 1), (''h_mean'', Num 1700), (''geometry'', Pt 1 1)]),
             (Num 101, [(''extent_id'', Num 1), (''h_mean'', Num 1701), (''geometry'', Pt 1 1)])]\<rparr>"

definition merged_demo :: frame where
  "merged_demo =
     \<lparr>crs = None,
      columns = [''extent_id'', ''h_canopy'', ''geometry.atl08'', ''h_mean'', ''geometry.atl06''],
      rows =
        [(Num 100,
          [(''extent_id'', Num 1), (''h_canopy'', Num 12), (''geometry.atl08'', Pt 1 1),
           (''h_mean'', Num 1700), (''geometry.atl06'', Pt 1 1)]),
         (Num 200,
          [(''extent_id'', Num 2), (''h_canopy'', Num 15), (''geometry.atl08'', Pt 2 2)])]\<rparr>"

definition cmr_no_granules :: "query \<Rightarrow> error + string list" where
  "cmr_no_granules q = Inr []"

definition cmr_demo :: "query \<Rightarrow> error + string list" where
  "cmr_demo q = Inr [''ATL03_20181019065445_03150111_005_01.h5'']"


definition dispatch_demo :: dispatcher where
  "dispatch_demo c = Inr atl06_demo"



definition built_demo :: dict where
  "built_demo = [(''srt'', PInt 0), (''cnf'', PInt 4), (''len'', PNum 40.0), (''res'', PNum 20.0)]"

definition toregion_demo :: "string \<Rightarrow> error + pyval" where
  "toregion_demo path = Inr (PDict [(''poly'', PList region)])"

section \<open>Properties\<close>

subsection \<open>Sequencing\<close>

lemma and_then_Inr:
  "and_then x f = Inr y \<longleftrightarrow> (\<exists>v. x = Inr v \<and> f v = Inr y)"
  by (cases x) (simp_all add: and_then_def)

lemma and_then_Inl:
  "x = Inl e \<Longrightarrow> and_then x f = Inl e"
  by (simp add: and_then_def)

subsection \<open>Closed rings\<close>

text \<open>
  Claim C10. Each literal coordinate-list region of the notebooks is a closed ring: the
  first vertex read with index \<open>0\<close> and the last vertex read with index \<open>-1\<close> exist and
  have the same longitude and the same latitude. For the Boulder region the two reads give
  the same vertex; for the single-track box the two coordinate lists have the same length
  and each of them starts and ends with the same number.
\<close>

theorem literal_regions_closed:
  "py_index region 0 = Inr (PDict [(''lon'', PNum (-105.82971551223244)), (''lat'', PNum 39.81983728534918)])
   \<and> py_index region (-1) = py_index region 0
   \<and> length box_lon = length box_lat
   \<and> py_index box_lon 0 = Inr (PInt (-105)) \<and> py_index box_lon (-1) = py_index box_lon 0
   \<and> py_index box_lat 0 = Inr (PInt (-75)) \<and> py_index box_lat (-1) = py_index box_lat 0"
  by (simp add: py_index_def region_def box_lon_def box_lat_def)

text \<open>The polygon of the single-track notebook is the two lists put side by side.\<close>

lemma to_region_box: "to_region box_lon box_lat = Inr box_poly"
  by (simp add: to_region_def box_lon_def box_lat_def box_poly_def)

subsection \<open>Extraction of the granule parameters\<close>

lemma rx_match_14:
  assumes "rx_match s = Some (g, r)"
  shows "length g = 14"
  using assms unfolding rx_match_def
  by (auto split: Option.bind_splits prod.splits)

lemma rx_scan_14: "g \<in> set (rx_scan k s) \<Longrightarrow> length g = 14"
  by (induction k s rule: rx_scan.induct) (auto split: option.splits dest: rx_match_14)

lemma findall_14: "g \<in> set (findall s) \<Longrightarrow> length g = 14"
  unfolding findall_def by (rule rx_scan_14)

lemma unpack_granule_eq:
  "unpack_granule granule =
     (if findall granule = [] then Inl IndexError else Inr (last (findall granule)))"
proof (cases "findall granule = []")
  case True
  then show ?thesis by (simp add: unpack_granule_def py_pop_def and_then_def)
next
  case False
  then have "length (last (findall granule)) = 14"
    by (intro findall_14 [of _ granule]) simp
  with False show ?thesis
    by (auto simp: unpack_granule_def py_pop_def and_then_def unpack14_def split: list.splits)
qed

text \<open>
  Claim C7, as amended. The metadata search returns a list of names; the notebook takes
  the first name and extracts the fields of the granule-name pattern from it. When the
  list is not empty and its first name matches the pattern, the extraction succeeds and
  gives the fourteen fields of the last match. When the list is empty (\<open>resources[0]\<close>)
  or the first name does not match (\<open>pop\<close> of an empty list), the cells raise
  IndexError: nothing in the notebook makes the list non-empty or the name well-formed.
\<close>

theorem granule_parameters_extracted:
  assumes "cmr \<lparr>short_name = ''ATL03'', search_polygon = poly,
                time_start = ''2018-10-19'', time_end = ''2018-10-20''\<rparr> = Inr resources"
  shows "granule_parameters cmr poly =
           (if resources = [] \<or> findall (hd resources) = [] then Inl IndexError
            else Inr (last (findall (hd resources))))
         \<and> (\<forall>parts. granule_parameters cmr poly = Inr parts \<longrightarrow> length parts = 14)"
proof (cases resources)
  case Nil
  with assms show ?thesis
    by (simp add: granule_parameters_def find_granule_def and_then_def py_index_def)
next
  case (Cons r rs)
  with assms have "granule_parameters cmr poly = unpack_granule r"
    by (simp add: granule_parameters_def find_granule_def and_then_def py_index_def)
  with Cons show ?thesis
    using findall_14 [of "last (findall r)" r] by (simp add: unpack_granule_eq)
qed

theorem granule_parameters_extracted_witness:
  "granule_parameters cmr_demo box_poly =
     Inr [''ATL03'', [], ''2018'', ''10'', ''19'', ''06'', ''54'', ''45'',
          ''0315'', ''01'', ''11'', ''005'', ''01'', []]
   \<and> length [''ATL03'', [], ''2018'', ''10'', ''19'', ''06'', ''54'', ''45'',
          ''0315'', ''01'', ''11'', ''005'', ''01'', []] = (14::nat)"
proof -
  have f: "findall ''ATL03_20181019065445_03150111_005_01.h5'' =
      [[''ATL03'', [], ''2018'', ''10'', ''19'', ''06'', ''54'', ''45'',
        ''0315'', ''01'', ''11'', ''005'', ''01'', []]]"
    by code_simp
  have c: "cmr_demo \<lparr>short_name = ''ATL03'', search_polygon = box_poly,
                time_start = ''2018-10-19'', time_end = ''2018-10-20''\<rparr>
           = Inr [''ATL03_20181019065445_03150111_005_01.h5'']"
    by (simp add: cmr_demo_def)
  from granule_parameters_extracted
         [of cmr_demo box_poly "[''ATL03_20181019065445_03150111_005_01.h5'']", OF c] f
  show ?thesis
    by simp
qed

text \<open>
  The claim as stated fails when the search finds no granule: the list is empty and the
  cell raises IndexError at \<open>resources[0]\<close>.
\<close>

theorem granule_parameters_empty_search:
  "granule_parameters cmr_no_granules box_poly = Inl IndexError"
  by (simp add: granule_parameters_def find_granule_def and_then_def py_index_def cmr_no_granules_def)

subsection \<open>The index of the table that \<open>s3_retrieve\<close> returns\<close>

lemma to_crs_Inr:
  assumes "to_crs p t f = Inr g"
  shows "map fst (rows g) = map fst (rows f)" and "crs g = t" and "t \<noteq> None"
  using assms by (auto simp: to_crs_def split: option.splits)

lemma drop_duplicated_fresh:
  "set (map fst (drop_duplicated seen rs)) \<inter> set seen = {}"
  by (induction seen rs rule: drop_duplicated.induct) auto

lemma drop_duplicated_distinct:
  "distinct (map fst (drop_duplicated seen rs))"
proof (induction seen rs rule: drop_duplicated.induct)
  case (1 seen)
  show ?case by simp
next
  case (2 seen l r rs)
  have "l \<notin> set (map fst (drop_duplicated (l # seen) rs))"
    using drop_duplicated_fresh [of "l # seen" rs] by auto
  with 2 show ?case by simp
qed

lemma drop_duplicated_subset:
  "set (drop_duplicated seen rs) \<subseteq> set rs"
  by (induction seen rs rule: drop_duplicated.induct) auto

lemma drop_duplicated_sorted:
  "sorted (map (\<lambda>(l, r). label_key l) rs) \<Longrightarrow>
   sorted (map (\<lambda>(l, r). label_key l) (drop_duplicated seen rs))"
proof (induction seen rs rule: drop_duplicated.induct)
  case (1 seen)
  show ?case by simp
next
  case (2 seen l r rs)
  from "2.prems" have tl: "sorted (map (\<lambda>(l, r). label_key l) rs)"
    and hd: "\<forall>p \<in> set rs. label_key l \<le> (\<lambda>(l, r). label_key l) p"
    by auto
  show ?case
  proof (cases "l \<in> set seen")
    case True
    with 2 tl show ?thesis by simp
  next
    case False
    with hd drop_duplicated_subset [of "l # seen" rs] 2 tl show ?thesis
      by auto
  qed
qed

lemma sort_index_Inr:
  assumes "sort_index f = Inr g"
  shows "sorted (map (\<lambda>(l, r). label_key l) (rows g))"
    and "\<not> list_ex is_point (frame_index g)"
    and "crs g = crs f"
  using assms
  by (auto simp: sort_index_def frame_index_def list_ex_iff split: if_splits)

lemma geoframe_Inr:
  assumes "geoframe x kw df = Inr g"
  shows "sorted (map label_key (frame_index g))"
    and "distinct (frame_index g)"
    and "crs g = Some ''EPSG:4326''"
    and "\<not> list_ex is_point (frame_index g)"
proof -
  from assms obtain g2 g3 where
    s: "sort_index g2 = Inr g3" and
    t: "to_crs (proj x) (Some ''EPSG:4326'') (g3\<lparr>rows := drop_duplicated [] (rows g3)\<rparr>) = Inr g"
    unfolding geoframe_def Let_def and_then_Inr by blast
  have idx: "frame_index g = map fst (drop_duplicated [] (rows g3))"
    using to_crs_Inr(1) [OF t] by (simp add: frame_index_def)
  have "sorted (map (\<lambda>(l, r). label_key l) (drop_duplicated [] (rows g3)))"
    using sort_index_Inr(1) [OF s] by (rule drop_duplicated_sorted)
  moreover have "map label_key (map fst rs) = map (\<lambda>(l, r). label_key l) rs" for rs :: "(cell \<times> row) list"
    by (induction rs) auto
  ultimately show "sorted (map label_key (frame_index g))"
    by (simp only: idx)
  show "distinct (frame_index g)"
    by (simp only: idx drop_duplicated_distinct)
  show "crs g = Some ''EPSG:4326''"
    using to_crs_Inr(2) [OF t] .
  show "\<not> list_ex is_point (frame_index g)"
  proof
    assume "list_ex is_point (frame_index g)"
    then obtain l where "l \<in> set (frame_index g)" and p: "is_point l"
      by (auto simp: list_ex_iff)
    then obtain r where "(l, r) \<in> set (drop_duplicated [] (rows g3))"
      unfolding idx by auto
    then have "(l, r) \<in> set (rows g3)"
      using drop_duplicated_subset by blast
    then have "l \<in> set (frame_index g3)"
      by (force simp: frame_index_def)
    with p sort_index_Inr(2) [OF s] show False
      by (auto simp: list_ex_iff)
  qed
qed

lemma drop_duplicated_labels:
  "set (map fst (drop_duplicated seen rs)) = set (map fst rs) - set seen"
  by (induction seen rs rule: drop_duplicated.induct) auto

lemma set_index_Inr:
  assumes "set_index key f = Inr g"
  shows "key \<in> set (columns f)"
    and "frame_index g = map (\<lambda>(l, r). cell_of r key) (rows f)"
  using assms by (auto simp: set_index_def frame_index_def split: if_splits)

lemma sort_index_labels:
  assumes "sort_index f = Inr g"
  shows "set (frame_index g) = set (frame_index f)"
  using assms by (auto simp: sort_index_def frame_index_def split: if_splits)

lemma geoframe_labels:
  assumes "geoframe x kw df = Inr g"
  shows "\<exists>t. located x kw df = Inr t
           \<and> (case index_key kw of None \<Rightarrow> ''time'' | Some k \<Rightarrow> k) \<in> set (columns t)
           \<and> set (frame_index g)
               = set (map (\<lambda>(l, r). cell_of r (case index_key kw of None \<Rightarrow> ''time'' | Some k \<Rightarrow> k)) (rows t))"
proof -
  let ?k = "case index_key kw of None \<Rightarrow> ''time'' | Some k \<Rightarrow> k"
  have k: "setdefault (index_key kw) ''time'' = ?k"
    by (simp add: setdefault_def split: option.splits)
  from assms obtain t g2 g3 where
    l: "located x kw df = Inr t" and
    i: "set_index ?k t = Inr g2" and
    s: "sort_index g2 = Inr g3" and
    c: "to_crs (proj x) (Some ''EPSG:4326'') (g3\<lparr>rows := drop_duplicated [] (rows g3)\<rparr>) = Inr g"
    unfolding geoframe_def and_then_Inr k by blast
  have "frame_index g = map fst (drop_duplicated [] (rows g3))"
    using to_crs_Inr(1) [OF c] by (simp add: frame_index_def)
  then have "set (frame_index g) = set (map fst (rows g3)) - set []"
    by (simp only: drop_duplicated_labels)
  then have "set (frame_index g) = set (frame_index g3)"
    by (simp add: frame_index_def)
  also have "\<dots> = set (frame_index g2)"
    by (rule sort_index_labels [OF s])
  also have "\<dots> = set (map (\<lambda>(l, r). cell_of r ?k) (rows t))"
    by (simp only: set_index_Inr(2) [OF i])
  finally have "set (frame_index g) = set (map (\<lambda>(l, r). cell_of r ?k) (rows t))" .
  with l set_index_Inr(1) [OF i] show ?thesis
    by blast
qed

lemma s3_retrieve_steps:
  assumes "s3_retrieve x granule kw = Inr g" and "rows g \<noteq> []"
  shows "\<exists>frames df.
           beams x granule (last (findall granule))
             [''gt1l'', ''gt1r'', ''gt2l'', ''gt2r'', ''gt3l'', ''gt3r''] [] = Inr frames
           \<and> pd_concat frames = Inr df \<and> geoframe x kw df = Inr g"
proof -
  from assms(1) obtain parts frames where
    u: "unpack_granule granule = Inr parts" and
    b: "beams x granule parts [''gt1l'', ''gt1r'', ''gt2l'', ''gt2r'', ''gt3l'', ''gt3r''] [] = Inr frames" and
    r: "(case pd_concat frames of Inl _ \<Rightarrow> Inr (emptyframe (empty_crs x)) | Inr df \<Rightarrow> geoframe x kw df) = Inr g"
    unfolding s3_retrieve_def and_then_Inr by blast
  from u have p: "parts = last (findall granule)"
    by (simp add: unpack_granule_eq split: if_splits)
  from r assms(2) obtain df where "pd_concat frames = Inr df" and "geoframe x kw df = Inr g"
    by (cases "pd_concat frames") (auto simp: emptyframe_def)
  with b p show ?thesis
    by blast
qed

text \<open>
  Claim C8. Whenever \<open>s3_retrieve\<close> returns a table that has rows, the labels of its
  index are the values of the configured index column (\<open>index_key\<close>, \<open>time\<close> by
  default) of the table that the beams, the concatenation and the intersection with the
  polygon produced; they are in ascending order (a missing label after every number), no
  label occurs twice, no label is a point, and the reference system of the table is
  EPSG:4326. This holds for every answer of the data service, every order of the beams'
  rows, every polygon and every behaviour of the intersection and of the projection: the
  last four statements of the function set the index, sort it, drop the repeated labels
  and project back. A table with rows is returned only when the name \<open>asset\<close> is bound
  in the session: in the notebook as it is saved the name is never assigned, every beam
  fails in its \<open>try\<close>, and the function returns the empty table.
\<close>

theorem s3_retrieve_index_sorted:
  assumes "s3_retrieve x granule kw = Inr g" and "rows g \<noteq> []"
  shows "sorted (map label_key (frame_index g)) \<and> distinct (frame_index g)
         \<and> \<not> list_ex is_point (frame_index g)
         \<and> crs g = Some ''EPSG:4326''
         \<and> (\<exists>frames df t.
               beams x granule (last (findall granule))
                 [''gt1l'', ''gt1r'', ''gt2l'', ''gt2r'', ''gt3l'', ''gt3r''] [] = Inr frames
               \<and> pd_concat frames = Inr df
               \<and> located x kw df = Inr t
               \<and> (case index_key kw of None \<Rightarrow> ''time'' | Some k \<Rightarrow> k) \<in> set (columns t)
               \<and> set (frame_index g)
                   = set (map (\<lambda>(l, r). cell_of r (case index_key kw of None \<Rightarrow> ''time'' | Some k \<Rightarrow> k))
                            (rows t)))"
proof -
  from s3_retrieve_steps [OF assms] obtain frames df where
    b: "beams x granule (last (findall granule))
          [''gt1l'', ''gt1r'', ''gt2l'', ''gt2r'', ''gt3l'', ''gt3r''] [] = Inr frames"
    and c: "pd_concat frames = Inr df" and g: "geoframe x kw df = Inr g"
    by blast
  from geoframe_labels [OF g] obtain t where
    "located x kw df = Inr t"
    "(case index_key kw of None \<Rightarrow> ''time'' | Some k \<Rightarrow> k) \<in> set (columns t)"
    "set (frame_index g)
       = set (map (\<lambda>(l, r). cell_of r (case index_key kw of None \<Rightarrow> ''time'' | Some k \<Rightarrow> k)) (rows t))"
    by blast
  with b c have "\<exists>frames df t.
               beams x granule (last (findall granule))
                 [''gt1l'', ''gt1r'', ''gt2l'', ''gt2r'', ''gt3l'', ''gt3r''] [] = Inr frames
               \<and> pd_concat frames = Inr df
               \<and> located x kw df = Inr t
               \<and> (case index_key kw of None \<Rightarrow> ''time'' | Some k \<Rightarrow> k) \<in> set (columns t)
               \<and> set (frame_index g)
                   = set (map (\<lambda>(l, r). cell_of r (case index_key kw of None \<Rightarrow> ''time'' | Some k \<Rightarrow> k))
                            (rows t))"
    by blast
  with geoframe_Inr [OF g] show ?thesis
    by blast
qed

theorem s3_retrieve_index_sorted_witness:
  "s3_retrieve ext_demo ''ATL06_20181019065445_03150111_005_01.h5'' kw_none = Inr demo_frame
   \<and> rows demo_frame \<noteq> []
   \<and> frame_index demo_frame = [Num 1514764810000000000, Num 1514764830000000000]
   \<and> map (\<lambda>(l, r). cell_of r ''time'') (rows located_demo)
       = [Num 1514764830000000000, Num 1514764810000000000, Num 1514764830000000000]
   \<and> sorted (map label_key (frame_index demo_frame)) \<and> distinct (frame_index demo_frame)
   \<and> crs demo_frame = Some ''EPSG:4326''"
proof -
  have run: "s3_retrieve ext_demo ''ATL06_20181019065445_03150111_005_01.h5'' kw_none = Inr demo_frame"
    by code_simp
  have ne: "rows demo_frame \<noteq> []"
    by (simp add: demo_frame_def)
  have i: "frame_index demo_frame = [Num 1514764810000000000, Num 1514764830000000000]"
    by (simp add: demo_frame_def frame_index_def)
  have l: "map (\<lambda>(l, r). cell_of r ''time'') (rows located_demo)
       = [Num 1514764830000000000, Num 1514764810000000000, Num 1514764830000000000]"
    by (simp add: located_demo_def cell_of_def)
  note t = s3_retrieve_index_sorted [OF run ne]
  have "sorted (map label_key (frame_index demo_frame))"
    by (rule t [THEN conjunct1])
  moreover have "distinct (frame_index demo_frame)"
    by (rule t [THEN conjunct2, THEN conjunct1])
  moreover have "crs demo_frame = Some ''EPSG:4326''"
    by (rule t [THEN conjunct2, THEN conjunct2, THEN conjunct2, THEN conjunct1])
  ultimately have "sorted (map label_key (frame_index demo_frame))
      \<and> distinct (frame_index demo_frame) \<and> crs demo_frame = Some ''EPSG:4326''"
    by (intro conjI)
  with run ne i l show ?thesis
    by simp
qed

text \<open>The example table before its index is set, as the function computes it.\<close>

lemma located_demo_run:
  "and_then (beams ext_demo ''ATL06_20181019065445_03150111_005_01.h5''
               (last (findall ''ATL06_20181019065445_03150111_005_01.h5''))
               [''gt1l'', ''gt1r'', ''gt2l'', ''gt2r'', ''gt3l'', ''gt3r''] [])
     (\<lambda>frames. and_then (pd_concat frames) (located ext_demo kw_none)) = Inr located_demo"
  by code_simp

text \<open>A sum beyond the 64-bit range wraps around, as the addition of numpy does.\<close>

lemma datetime_add_wraps:
  "datetime_add atlas_sdp_epoch 8000000000000000000 = Num (-8931979273709551616)"
  by code_simp

subsection \<open>The row count of the merged table\<close>

lemma length_range_index: "length (range_index rs) = length rs"
  by (simp add: range_index_def)

lemma snd_range_index: "map snd (range_index rs) = rs"
  by (simp add: range_index_def)

lemma filter_distinct_key:
  "distinct (map f xs) \<Longrightarrow> length (filter (\<lambda>x. f x = v) xs) \<le> 1"
proof (induction xs)
  case Nil
  show ?case by simp
next
  case (Cons x xs)
  show ?case
  proof (cases "f x = v")
    case True
    from Cons.prems have "f x \<notin> f ` set xs"
      by simp
    with True have "\<forall>y \<in> set xs. f y \<noteq> v"
      by blast
    then have "filter (\<lambda>y. f y = v) xs = []"
      by (simp add: filter_empty_conv)
    with True show ?thesis by simp
  next
    case False
    with Cons show ?thesis by simp
  qed
qed

lemma join_row_nonempty: "1 \<le> length (join_row on sfx left right lrow)"
  by (cases "matches on lrow right") (simp_all add: join_row_def Let_def)

lemma join_row_single:
  assumes "length (matches on lrow right) \<le> 1"
  shows "length (join_row on sfx left right lrow) = 1"
proof (cases "matches on lrow right")
  case Nil
  then show ?thesis by (simp add: join_row_def Let_def)
next
  case (Cons m ms)
  with assms have "ms = []" by simp
  with Cons show ?thesis by (simp add: join_row_def Let_def)
qed

lemma length_concat_ge:
  "(\<And>x. x \<in> set xs \<Longrightarrow> 1 \<le> length (g x)) \<Longrightarrow> length xs \<le> length (concat (map g xs))"
  by (induction xs) fastforce+

lemma length_concat_eq:
  "(\<And>x. x \<in> set xs \<Longrightarrow> length (g x) = 1) \<Longrightarrow> length (concat (map g xs)) = length xs"
  by (induction xs) auto

lemma matches_distinct:
  assumes "distinct (map (\<lambda>r. cell_of r on) (map snd (rows right)))"
  shows "length (matches on lrow right) \<le> 1"
  unfolding matches_def using filter_distinct_key [OF assms] .

lemma merge_left_Inr:
  assumes "on \<in> set (columns left)" and "on \<in> set (columns right)"
  shows "merge_left on sfx left right =
     Inr \<lparr>crs = None,
          columns = map (left_name on (fst sfx) right) (columns left)
                    @ map (right_name on (snd sfx) left) (filter (\<lambda>c. c \<noteq> on) (columns right)),
          rows = range_index (concat (map (\<lambda>(l, lrow). join_row on sfx left right lrow) (rows left)))\<rparr>"
  using assms by (simp add: merge_left_def)

text \<open>
  Claim C1, as amended. For two result tables that both have the column \<open>extent_id\<close>,
  the left join on that column succeeds and has at least as many rows as the left table
  \<open>atl08\<close>, one or more for every left row whether or not its identifier appears in
  \<open>atl06\<close>. When no identifier repeats in the right table, the merged table has exactly
  as many rows as the left table, and re-labelling it with the index of \<open>atl08\<close>
  succeeds.
\<close>

theorem merge_row_count:
  assumes l: "''extent_id'' \<in> set (columns atl08)"
    and r: "''extent_id'' \<in> set (columns atl06)"
  shows "\<exists>m. merge_left ''extent_id'' (''.atl08'', ''.atl06'') atl08 atl06 = Inr m
           \<and> length (rows atl08) \<le> length (rows m)
           \<and> (distinct (map (\<lambda>r. cell_of r ''extent_id'') (map snd (rows atl06))) \<longrightarrow>
                length (rows m) = length (rows atl08)
                \<and> merge_atl08_atl06 atl08 atl06
                    = Inr (m\<lparr>rows := zip (frame_index atl08) (map snd (rows m))\<rparr>)
                \<and> frame_index (m\<lparr>rows := zip (frame_index atl08) (map snd (rows m))\<rparr>)
                    = frame_index atl08)"
proof -
  let ?j = "\<lambda>(l, lrow). join_row ''extent_id'' (''.atl08'', ''.atl06'') atl08 atl06 lrow"
  let ?m = "\<lparr>crs = None,
          columns = map (left_name ''extent_id'' ''.atl08'' atl06) (columns atl08)
                    @ map (right_name ''extent_id'' ''.atl06'' atl08) (filter (\<lambda>c. c \<noteq> ''extent_id'') (columns atl06)),
          rows = range_index (concat (map ?j (rows atl08)))\<rparr>"
  have m: "merge_left ''extent_id'' (''.atl08'', ''.atl06'') atl08 atl06 = Inr ?m"
    using merge_left_Inr [OF l r, of "(''.atl08'', ''.atl06'')"] by simp
  have ge: "length (rows atl08) \<le> length (rows ?m)"
    using length_concat_ge [of "rows atl08" ?j] join_row_nonempty
    by (auto simp: length_range_index)
  have eq: "length (rows ?m) = length (rows atl08)"
    if d: "distinct (map (\<lambda>r. cell_of r ''extent_id'') (map snd (rows atl06)))"
  proof -
    have one: "length (?j x) = 1" for x
      using join_row_single [OF matches_distinct [OF d]] by (cases x) simp
    have "length (concat (map ?j (rows atl08))) = length (rows atl08)"
      by (rule length_concat_eq) (rule one)
    then show ?thesis
      by (simp add: length_range_index)
  qed
  have cell: "merge_atl08_atl06 atl08 atl06
                = Inr (?m\<lparr>rows := zip (frame_index atl08) (map snd (rows ?m))\<rparr>)
              \<and> frame_index (?m\<lparr>rows := zip (frame_index atl08) (map snd (rows ?m))\<rparr>)
                = frame_index atl08"
    if d: "distinct (map (\<lambda>r. cell_of r ''extent_id'') (map snd (rows atl06)))"
  proof -
    from eq [OF d] have len: "length (frame_index atl08) = length (rows ?m)"
      by (simp add: frame_index_def)
    then have "merge_atl08_atl06 atl08 atl06 = Inr (?m\<lparr>rows := zip (frame_index atl08) (map snd (rows ?m))\<rparr>)"
      unfolding merge_atl08_atl06_def m and_then_def set_axis_def by simp
    moreover from len have "map fst (zip (frame_index atl08) (map snd (rows ?m))) = frame_index atl08"
      by simp
    ultimately show ?thesis
      by (simp add: frame_index_def)
  qed
  show ?thesis
  proof (intro exI conjI impI)
    show "merge_left ''extent_id'' (''.atl08'', ''.atl06'') atl08 atl06 = Inr ?m"
      by (rule m)
    show "length (rows atl08) \<le> length (rows ?m)"
      by (rule ge)
  next
    assume d: "distinct (map (\<lambda>r. cell_of r ''extent_id'') (map snd (rows atl06)))"
    show "length (rows ?m) = length (rows atl08)"
      by (rule eq [OF d])
    show "merge_atl08_atl06 atl08 atl06
            = Inr (?m\<lparr>rows := zip (frame_index atl08) (map snd (rows ?m))\<rparr>)"
      by (rule cell [OF d, THEN conjunct1])
    show "frame_index (?m\<lparr>rows := zip (frame_index atl08) (map snd (rows ?m))\<rparr>)
            = frame_index atl08"
      by (rule cell [OF d, THEN conjunct2])
  qed
qed

theorem merge_row_count_witness:
  "merge_atl08_atl06 atl08_demo atl06_demo = Inr merged_demo
   \<and> distinct (map (\<lambda>r. cell_of r ''extent_id'') (map snd (rows atl06_demo)))
   \<and> length (rows merged_demo) = length (rows atl08_demo)
   \<and> frame_index merged_demo = frame_index atl08_demo"
proof -
  have l: "''extent_id'' \<in> set (columns atl08_demo)"
    by (simp add: atl08_demo_def)
  have r: "''extent_id'' \<in> set (columns atl06_demo)"
    by (simp add: atl06_demo_def)
  have d: "distinct (map (\<lambda>r. cell_of r ''extent_id'') (map snd (rows atl06_demo)))"
    by (simp add: atl06_demo_def)
  have run: "merge_atl08_atl06 atl08_demo atl06_demo = Inr merged_demo"
    by code_simp
  have "\<exists>m. merge_left ''extent_id'' (''.atl08'', ''.atl06'') atl08_demo atl06_demo = Inr m
           \<and> length (rows atl08_demo) \<le> length (rows m)
           \<and> (distinct (map (\<lambda>r. cell_of r ''extent_id'') (map snd (rows atl06_demo))) \<longrightarrow>
                length (rows m) = length (rows atl08_demo)
                \<and> merge_atl08_atl06 atl08_demo atl06_demo
                    = Inr (m\<lparr>rows := zip (frame_index atl08_demo) (map snd (rows m))\<rparr>)
                \<and> frame_index (m\<lparr>rows := zip (frame_index atl08_demo) (map snd (rows m))\<rparr>)
                    = frame_index atl08_demo)"
    by (rule merge_row_count [OF l r])
  then obtain m where
    "merge_left ''extent_id'' (''.atl08'', ''.atl06'') atl08_demo atl06_demo = Inr m
           \<and> length (rows atl08_demo) \<le> length (rows m)
           \<and> (distinct (map (\<lambda>r. cell_of r ''extent_id'') (map snd (rows atl06_demo))) \<longrightarrow>
                length (rows m) = length (rows atl08_demo)
                \<and> merge_atl08_atl06 atl08_demo atl06_demo
                    = Inr (m\<lparr>rows := zip (frame_index atl08_demo) (map snd (rows m))\<rparr>)
                \<and> frame_index (m\<lparr>rows := zip (frame_index atl08_demo) (map snd (rows m))\<rparr>)
                    = frame_index atl08_demo)" ..
  with d have n: "length (rows m) = length (rows atl08_demo)"
    and g: "merge_atl08_atl06 atl08_demo atl06_demo
              = Inr (m\<lparr>rows := zip (frame_index atl08_demo) (map snd (rows m))\<rparr>)"
    and i: "frame_index (m\<lparr>rows := zip (frame_index atl08_demo) (map snd (rows m))\<rparr>)
              = frame_index atl08_demo"
    by simp_all
  from g run have e: "merged_demo = m\<lparr>rows := zip (frame_index atl08_demo) (map snd (rows m))\<rparr>"
    by simp
  from n have "length (rows (m\<lparr>rows := zip (frame_index atl08_demo) (map snd (rows m))\<rparr>))
                 = length (rows atl08_demo)"
    by (simp add: frame_index_def)
  with e i run d show ?thesis
    by simp
qed

text \<open>
  The claim as stated fails when an identifier repeats in the right table: the left row
  is joined with each of the two right rows, the merged table has three rows where the
  left table has two, and \<open>set_axis\<close> raises ValueError.
\<close>

theorem merge_repeated_right_ids:
  "map_sum id (length \<circ> rows) (merge_left ''extent_id'' (''.atl08'', ''.atl06'') atl08_demo atl06_repeated)
     = Inr 3
   \<and> length (rows atl08_demo) = 2
   \<and> merge_atl08_atl06 atl08_demo atl06_repeated = Inl ValueError"
  by code_simp

subsection \<open>The rows of the merged table\<close>

lemma matches_mem:
  "rrow \<in> set (matches on lrow right) \<longleftrightarrow>
     rrow \<in> set (map snd (rows right)) \<and> cell_of rrow on = cell_of lrow on"
  by (auto simp: matches_def)

lemma join_row_mem:
  "mrow \<in> set (join_row on sfx left right lrow) \<longleftrightarrow>
     (matches on lrow right = [] \<and> mrow = rename (left_name on (fst sfx) right) lrow)
     \<or> (\<exists>rrow \<in> set (matches on lrow right).
           mrow = rename (left_name on (fst sfx) right) lrow
                  @ rename (right_name on (snd sfx) left) (filter (\<lambda>(k, v). k \<noteq> on) rrow))"
  by (cases "matches on lrow right") (auto simp: join_row_def Let_def)

lemma merge_left_rows:
  assumes "merge_left on sfx left right = Inr m"
  shows "map snd (rows m) = concat (map (\<lambda>(l, lrow). join_row on sfx left right lrow) (rows left))"
    and "columns m = map (left_name on (fst sfx) right) (columns left)
                     @ map (right_name on (snd sfx) left) (filter (\<lambda>c. c \<noteq> on) (columns right))"
  using assms by (auto simp: merge_left_def snd_range_index split: if_splits)

lemma suffixed_not_key: "c @ ''.atl08'' \<noteq> ''extent_id''" "c @ ''.atl06'' \<noteq> ''extent_id''"
proof -
  show "c @ ''.atl08'' \<noteq> ''extent_id''"
  proof
    assume "c @ ''.atl08'' = ''extent_id''"
    then have "rev (c @ ''.atl08'') = rev ''extent_id''"
      by (rule arg_cong)
    then show False
      by simp
  qed
  show "c @ ''.atl06'' \<noteq> ''extent_id''"
  proof
    assume "c @ ''.atl06'' = ''extent_id''"
    then have "rev (c @ ''.atl06'') = rev ''extent_id''"
      by (rule arg_cong)
    then show False
      by simp
  qed
qed

lemma left_name_key:
  "left_name ''extent_id'' ''.atl08'' right c = ''extent_id'' \<longleftrightarrow> c = ''extent_id''"
  using suffixed_not_key(1) [of c] by (simp add: left_name_def del: append_eq_Cons_conv)

lemma right_name_key:
  "right_name ''extent_id'' ''.atl06'' left c = ''extent_id'' \<longleftrightarrow> c = ''extent_id''"
  using suffixed_not_key(2) [of c] by (simp add: right_name_def)

lemma rename_Cons: "rename f ((c, v) # r) = (f c, v) # rename f r"
  by (simp add: rename_def)

lemma map_of_rename_key:
  assumes "\<forall>c. f c = k \<longleftrightarrow> c = k"
  shows "map_of (rename f r) k = map_of r k"
proof (induction r)
  case Nil
  show ?case by (simp add: rename_def)
next
  case (Cons p r)
  obtain c v where p: "p = (c, v)"
    by (cases p)
  from assms have "(f c = k) = (c = k)"
    by blast
  then have "(k = f c) = (k = c)"
    by auto
  with Cons p show ?case
    by (simp add: rename_Cons)
qed

lemma map_of_rename_no_key:
  assumes "\<forall>c. f c = k \<longleftrightarrow> c = k"
  shows "map_of (rename f (filter (\<lambda>(c, v). c \<noteq> k) r)) k = None"
proof (induction r)
  case Nil
  show ?case by (simp add: rename_def)
next
  case (Cons p r)
  obtain c v where p: "p = (c, v)"
    by (cases p)
  from assms have "(f c = k) = (c = k)"
    by blast
  then have "(k = f c) = (k = c)"
    by auto
  with Cons p show ?case
    by (cases "c = k") (simp_all add: rename_Cons)
qed

lemma joined_key:
  "cell_of (rename (left_name ''extent_id'' ''.atl08'' right) lrow
            @ rename (right_name ''extent_id'' ''.atl06'' left) (filter (\<lambda>(k, v). k \<noteq> ''extent_id'') rrow))
       ''extent_id'' = cell_of lrow ''extent_id''"
  "cell_of (rename (left_name ''extent_id'' ''.atl08'' right) lrow) ''extent_id''
     = cell_of lrow ''extent_id''"
proof -
  have l: "map_of (rename (left_name ''extent_id'' ''.atl08'' right) lrow) ''extent_id''
             = map_of lrow ''extent_id''"
    by (rule map_of_rename_key) (simp only: left_name_key, simp)
  have r: "map_of (rename (right_name ''extent_id'' ''.atl06'' left)
                     (filter (\<lambda>(k, v). k \<noteq> ''extent_id'') rrow)) ''extent_id'' = None"
    by (rule map_of_rename_no_key) (simp only: right_name_key, simp)
  show "cell_of (rename (left_name ''extent_id'' ''.atl08'' right) lrow) ''extent_id''
     = cell_of lrow ''extent_id''"
    by (simp only: cell_of_def l)
  show "cell_of (rename (left_name ''extent_id'' ''.atl08'' right) lrow
            @ rename (right_name ''extent_id'' ''.atl06'' left) (filter (\<lambda>(k, v). k \<noteq> ''extent_id'') rrow))
       ''extent_id'' = cell_of lrow ''extent_id''"
    unfolding cell_of_def map_of_append map_add_def l r
    by (cases "map_of lrow ''extent_id''") simp_all
qed

lemma merge_left_complete:
  assumes m: "merge_left on sfx left right = Inr m"
    and l: "lrow \<in> set (map snd (rows left))"
    and j: "mrow \<in> set (join_row on sfx left right lrow)"
  shows "mrow \<in> set (map snd (rows m))"
proof -
  from l obtain lb where "(lb, lrow) \<in> set (rows left)"
    by auto
  with j show ?thesis
    unfolding merge_left_rows(1) [OF m] by auto
qed

lemma merge_cell_Inr:
  assumes g: "merge_atl08_atl06 atl08 atl06 = Inr g"
    and m: "merge_left ''extent_id'' (''.atl08'', ''.atl06'') atl08 atl06 = Inr m"
  shows "columns g = columns m" and "map snd (rows g) = map snd (rows m)"
    and "frame_index g = frame_index atl08"
proof -
  from g have s: "set_axis (frame_index atl08) m = Inr g"
    unfolding merge_atl08_atl06_def m by (simp add: and_then_def)
  then have len: "length (frame_index atl08) = length (rows m)"
    and eq: "g = m\<lparr>rows := zip (frame_index atl08) (map snd (rows m))\<rparr>"
    by (auto simp: set_axis_def split: if_splits)
  from eq show "columns g = columns m"
    by simp
  from eq len show "map snd (rows g) = map snd (rows m)"
    by simp
  from eq len show "frame_index g = frame_index atl08"
    by (simp add: frame_index_def)
qed

text \<open>
  Claim C4. The merge of the ATL08 and ATL06 result tables joins rows on the column
  \<open>extent_id\<close>. The columns of the merged table are the columns of the left table
  followed by the columns of the right table without the identifier: a name that both
  tables have (other than the identifier) appears with the suffix \<open>.atl08\<close> and with
  the suffix \<open>.atl06\<close>, every other name appears as it is. Every merged row comes from
  one left row and has its identifier: it is that row under its new names followed by a
  right row with the same identifier under its new names, or that row alone when no right
  row has its identifier. Every pair of a left and a right row with the same identifier
  is in the merged table, joined in this way, and every left row without a partner is in
  it alone. The table that the notebook's cell returns has these columns and these rows,
  under the labels of the left table.
\<close>

theorem merge_rows_joined:
  assumes m: "merge_left ''extent_id'' (''.atl08'', ''.atl06'') atl08 atl06 = Inr m"
  shows "columns m = map (left_name ''extent_id'' ''.atl08'' atl06) (columns atl08)
                     @ map (right_name ''extent_id'' ''.atl06'' atl08)
                         (filter (\<lambda>c. c \<noteq> ''extent_id'') (columns atl06))
    \<and> (\<forall>c \<in> set (columns atl08). c \<noteq> ''extent_id'' \<and> c \<in> set (columns atl06) \<longrightarrow>
          c @ ''.atl08'' \<in> set (columns m) \<and> c @ ''.atl06'' \<in> set (columns m))
    \<and> (\<forall>c \<in> set (columns atl08). c = ''extent_id'' \<or> c \<notin> set (columns atl06) \<longrightarrow> c \<in> set (columns m))
    \<and> (\<forall>c \<in> set (columns atl06). c \<notin> set (columns atl08) \<longrightarrow> c \<in> set (columns m))
    \<and> (\<forall>mrow \<in> set (map snd (rows m)). \<exists>lrow \<in> set (map snd (rows atl08)).
          cell_of mrow ''extent_id'' = cell_of lrow ''extent_id''
          \<and> ((mrow = rename (left_name ''extent_id'' ''.atl08'' atl06) lrow
               \<and> (\<forall>rrow \<in> set (map snd (rows atl06)).
                     cell_of rrow ''extent_id'' \<noteq> cell_of lrow ''extent_id''))
              \<or> (\<exists>rrow \<in> set (map snd (rows atl06)).
                    cell_of rrow ''extent_id'' = cell_of lrow ''extent_id''
                    \<and> mrow = rename (left_name ''extent_id'' ''.atl08'' atl06) lrow
                             @ rename (right_name ''extent_id'' ''.atl06'' atl08)
                                 (filter (\<lambda>(k, v). k \<noteq> ''extent_id'') rrow))))
    \<and> (\<forall>lrow \<in> set (map snd (rows atl08)). \<forall>rrow \<in> set (map snd (rows atl06)).
          cell_of rrow ''extent_id'' = cell_of lrow ''extent_id'' \<longrightarrow>
          rename (left_name ''extent_id'' ''.atl08'' atl06) lrow
            @ rename (right_name ''extent_id'' ''.atl06'' atl08)
                (filter (\<lambda>(k, v). k \<noteq> ''extent_id'') rrow)
          \<in> set (map snd (rows m)))
    \<and> (\<forall>lrow \<in> set (map snd (rows atl08)).
          (\<forall>rrow \<in> set (map snd (rows atl06)). cell_of rrow ''extent_id'' \<noteq> cell_of lrow ''extent_id'') \<longrightarrow>
          rename (left_name ''extent_id'' ''.atl08'' atl06) lrow \<in> set (map snd (rows m)))
    \<and> (\<forall>g. merge_atl08_atl06 atl08 atl06 = Inr g \<longrightarrow>
          columns g = columns m \<and> map snd (rows g) = map snd (rows m)
          \<and> frame_index g = frame_index atl08)"
proof (intro conjI ballI allI impI)
  show cols: "columns m = map (left_name ''extent_id'' ''.atl08'' atl06) (columns atl08)
                     @ map (right_name ''extent_id'' ''.atl06'' atl08)
                         (filter (\<lambda>c. c \<noteq> ''extent_id'') (columns atl06))"
    using merge_left_rows(2) [OF m] by simp
  {
    fix c
    assume c: "c \<in> set (columns atl08)" and b: "c \<noteq> ''extent_id'' \<and> c \<in> set (columns atl06)"
    from c b have "left_name ''extent_id'' ''.atl08'' atl06 c = c @ ''.atl08''"
      by (simp add: left_name_def)
    with c show "c @ ''.atl08'' \<in> set (columns m)"
      unfolding cols by force
    from c b have "right_name ''extent_id'' ''.atl06'' atl08 c = c @ ''.atl06''"
      by (simp add: right_name_def)
    moreover from b have "c \<in> set (filter (\<lambda>c. c \<noteq> ''extent_id'') (columns atl06))"
      by simp
    ultimately show "c @ ''.atl06'' \<in> set (columns m)"
      unfolding cols by force
  }
  {
    fix c
    assume c: "c \<in> set (columns atl08)" and b: "c = ''extent_id'' \<or> c \<notin> set (columns atl06)"
    then have "left_name ''extent_id'' ''.atl08'' atl06 c = c"
      by (auto simp: left_name_def)
    with c show "c \<in> set (columns m)"
      unfolding cols by force
  }
  {
    fix c
    assume c: "c \<in> set (columns atl06)" and b: "c \<notin> set (columns atl08)"
    from m have "''extent_id'' \<in> set (columns atl08)"
      by (simp add: merge_left_def split: if_splits)
    with b have ne: "c \<noteq> ''extent_id''"
      by auto
    from b have "right_name ''extent_id'' ''.atl06'' atl08 c = c"
      by (simp add: right_name_def)
    moreover from c ne have "c \<in> set (filter (\<lambda>c. c \<noteq> ''extent_id'') (columns atl06))"
      by simp
    ultimately show "c \<in> set (columns m)"
      unfolding cols by force
  }
  {
    fix mrow
    assume "mrow \<in> set (map snd (rows m))"
    then obtain l lrow where lrow: "(l, lrow) \<in> set (rows atl08)"
      and j: "mrow \<in> set (join_row ''extent_id'' (''.atl08'', ''.atl06'') atl08 atl06 lrow)"
      unfolding merge_left_rows(1) [OF m] by auto
    from lrow have mem: "lrow \<in> set (map snd (rows atl08))"
      by force
    from j consider
        (alone) "matches ''extent_id'' lrow atl06 = []"
          "mrow = rename (left_name ''extent_id'' ''.atl08'' atl06) lrow"
      | (joined) rrow where "rrow \<in> set (matches ''extent_id'' lrow atl06)"
          "mrow = rename (left_name ''extent_id'' ''.atl08'' atl06) lrow
                  @ rename (right_name ''extent_id'' ''.atl06'' atl08)
                      (filter (\<lambda>(k, v). k \<noteq> ''extent_id'') rrow)"
      unfolding join_row_mem by auto
    then show "\<exists>lrow \<in> set (map snd (rows atl08)).
          cell_of mrow ''extent_id'' = cell_of lrow ''extent_id''
          \<and> ((mrow = rename (left_name ''extent_id'' ''.atl08'' atl06) lrow
               \<and> (\<forall>rrow \<in> set (map snd (rows atl06)).
                     cell_of rrow ''extent_id'' \<noteq> cell_of lrow ''extent_id''))
              \<or> (\<exists>rrow \<in> set (map snd (rows atl06)).
                    cell_of rrow ''extent_id'' = cell_of lrow ''extent_id''
                    \<and> mrow = rename (left_name ''extent_id'' ''.atl08'' atl06) lrow
                             @ rename (right_name ''extent_id'' ''.atl06'' atl08)
                                 (filter (\<lambda>(k, v). k \<noteq> ''extent_id'') rrow)))"
    proof cases
      case alone
      from alone(1) have "\<forall>rrow \<in> set (map snd (rows atl06)).
          cell_of rrow ''extent_id'' \<noteq> cell_of lrow ''extent_id''"
        by (simp add: matches_def filter_empty_conv)
      moreover from alone(2) have "cell_of mrow ''extent_id'' = cell_of lrow ''extent_id''"
        by (simp only: joined_key(2))
      ultimately show ?thesis
        using alone(2) mem by blast
    next
      case joined
      from joined(1) have "rrow \<in> set (map snd (rows atl06))"
        and "cell_of rrow ''extent_id'' = cell_of lrow ''extent_id''"
        unfolding matches_mem by simp_all
      moreover from joined(2) have "cell_of mrow ''extent_id'' = cell_of lrow ''extent_id''"
        by (simp only: joined_key(1))
      ultimately show ?thesis
        using joined(2) mem by blast
    qed
  }
  {
    fix lrow rrow
    assume l: "lrow \<in> set (map snd (rows atl08))" and r: "rrow \<in> set (map snd (rows atl06))"
      and e: "cell_of rrow ''extent_id'' = cell_of lrow ''extent_id''"
    from r e have "rrow \<in> set (matches ''extent_id'' lrow atl06)"
      unfolding matches_mem by simp
    then have "rename (left_name ''extent_id'' ''.atl08'' atl06) lrow
            @ rename (right_name ''extent_id'' ''.atl06'' atl08)
                (filter (\<lambda>(k, v). k \<noteq> ''extent_id'') rrow)
          \<in> set (join_row ''extent_id'' (''.atl08'', ''.atl06'') atl08 atl06 lrow)"
      unfolding join_row_mem by auto
    from merge_left_complete [OF m l this]
    show "rename (left_name ''extent_id'' ''.atl08'' atl06) lrow
            @ rename (right_name ''extent_id'' ''.atl06'' atl08)
                (filter (\<lambda>(k, v). k \<noteq> ''extent_id'') rrow)
          \<in> set (map snd (rows m))" .
  }
  {
    fix lrow
    assume l: "lrow \<in> set (map snd (rows atl08))"
      and n: "\<forall>rrow \<in> set (map snd (rows atl06)). cell_of rrow ''extent_id'' \<noteq> cell_of lrow ''extent_id''"
    from n have "matches ''extent_id'' lrow atl06 = []"
      by (simp add: matches_def filter_empty_conv)
    then have "rename (left_name ''extent_id'' ''.atl08'' atl06) lrow
          \<in> set (join_row ''extent_id'' (''.atl08'', ''.atl06'') atl08 atl06 lrow)"
      unfolding join_row_mem by simp
    from merge_left_complete [OF m l this]
    show "rename (left_name ''extent_id'' ''.atl08'' atl06) lrow \<in> set (map snd (rows m))" .
  }
  {
    fix g
    assume g: "merge_atl08_atl06 atl08 atl06 = Inr g"
    show "columns g = columns m" "map snd (rows g) = map snd (rows m)"
      "frame_index g = frame_index atl08"
      by (rule merge_cell_Inr [OF g m])+
  }
qed

theorem merge_rows_joined_witness:
  "merge_left ''extent_id'' (''.atl08'', ''.atl06'') atl08_demo atl06_demo
     = Inr (merged_demo\<lparr>rows := range_index (map snd (rows merged_demo))\<rparr>)
   \<and> merge_atl08_atl06 atl08_demo atl06_demo = Inr merged_demo
   \<and> columns merged_demo
     = [''extent_id'', ''h_canopy'', ''geometry.atl08'', ''h_mean'', ''geometry.atl06'']
   \<and> map snd (rows merged_demo)
     = [[(''extent_id'', Num 1), (''h_canopy'', Num 12), (''geometry.atl08'', Pt 1 1),
         (''h_mean'', Num 1700), (''geometry.atl06'', Pt 1 1)],
        [(''extent_id'', Num 2), (''h_canopy'', Num 15), (''geometry.atl08'', Pt 2 2)]]
   \<and> frame_index merged_demo = frame_index atl08_demo"
proof -
  let ?m = "merged_demo\<lparr>rows := range_index (map snd (rows merged_demo))\<rparr>"
  have run: "merge_left ''extent_id'' (''.atl08'', ''.atl06'') atl08_demo atl06_demo = Inr ?m"
    by code_simp
  have cell: "merge_atl08_atl06 atl08_demo atl06_demo = Inr merged_demo"
    by code_simp
  note t = merge_rows_joined [OF run]
  from t have "\<forall>g. merge_atl08_atl06 atl08_demo atl06_demo = Inr g \<longrightarrow>
          columns g = columns ?m \<and> map snd (rows g) = map snd (rows ?m)
          \<and> frame_index g = frame_index atl08_demo"
    by (elim conjE)
  with cell have i: "frame_index merged_demo = frame_index atl08_demo"
    by blast
  from t have "columns ?m = map (left_name ''extent_id'' ''.atl08'' atl06_demo) (columns atl08_demo)
                     @ map (right_name ''extent_id'' ''.atl06'' atl08_demo)
                         (filter (\<lambda>c. c \<noteq> ''extent_id'') (columns atl06_demo))"
    by (rule conjunct1)
  moreover have "map (left_name ''extent_id'' ''.atl08'' atl06_demo) (columns atl08_demo)
                     @ map (right_name ''extent_id'' ''.atl06'' atl08_demo)
                         (filter (\<lambda>c. c \<noteq> ''extent_id'') (columns atl06_demo))
                 = [''extent_id'', ''h_canopy'', ''geometry.atl08'', ''h_mean'', ''geometry.atl06'']"
    by code_simp
  moreover have "map snd (rows merged_demo)
     = [[(''extent_id'', Num 1), (''h_canopy'', Num 12), (''geometry.atl08'', Pt 1 1),
         (''h_mean'', Num 1700), (''geometry.atl06'', Pt 1 1)],
        [(''extent_id'', Num 2), (''h_canopy'', Num 15), (''geometry.atl08'', Pt 2 2)]]"
    by (simp add: merged_demo_def)
  ultimately show ?thesis
    using run cell i by simp
qed

subsection \<open>The parameter mapping reaches the dispatchers as assembled\<close>

lemma map_of_update_other:
  "k \<noteq> k' \<Longrightarrow> map_of (AList.update k' v al) k = map_of al k"
  by (simp add: update_conv')

lemma request_regions_parms:
  "c \<in> set (fst (request_regions d p regions els)) \<Longrightarrow>
   api c = ''atl06p'' \<and> (\<forall>k. k \<noteq> ''poly'' \<longrightarrow> map_of (parms c) k = map_of p k)"
proof (induction regions arbitrary: p els)
  case Nil
  then show ?case by simp
next
  case (Cons poly rest)
  let ?p = "AList.update ''poly'' poly p"
  let ?c = "\<lparr>api = ''atl06p'', parms = ?p, opts = []\<rparr>"
  show ?case
  proof (cases "d ?c")
    case (Inl e)
    with Cons.prems have "c = ?c"
      by (simp add: Let_def)
    then show ?thesis
      by (simp add: map_of_update_other)
  next
    case (Inr f)
    with Cons.prems have "c = ?c \<or> c \<in> set (fst (request_regions d ?p rest (els @ [f])))"
      by (auto simp: Let_def split: prod.splits)
    then show ?thesis
    proof
      assume "c = ?c"
      then show ?thesis
        by (simp add: map_of_update_other)
    next
      assume "c \<in> set (fst (request_regions d ?p rest (els @ [f])))"
      from Cons.IH [OF this] show ?thesis
        by (simp add: map_of_update_other)
    qed
  qed
qed

lemma request_regions_poly:
  "map (\<lambda>c. map_of (parms c) ''poly'') (fst (request_regions d p regions els))
     = map Some (take (length (fst (request_regions d p regions els))) regions)"
proof (induction regions arbitrary: p els)
  case Nil
  show ?case by simp
next
  case (Cons poly rest)
  let ?p = "AList.update ''poly'' poly p"
  let ?c = "\<lparr>api = ''atl06p'', parms = ?p, opts = []\<rparr>"
  show ?case
  proof (cases "d ?c")
    case (Inl e)
    then show ?thesis
      by (simp add: Let_def update_conv')
  next
    case (Inr f)
    obtain cs0 r0 where rec: "request_regions d ?p rest (els @ [f]) = (cs0, r0)"
      by (cases "request_regions d ?p rest (els @ [f])")
    with Cons.IH [of ?p "els @ [f]"] Inr show ?thesis
      by (simp add: Let_def update_conv')
  qed
qed

text \<open>
  Claim C5. The parameter mapping reaches the dispatchers as it was assembled. In the
  Boulder, single-track, subsetting and PhoREAL notebooks every call (\<open>atl06\<close>,
  \<open>atl06p\<close>, \<open>atl06sp\<close>, \<open>atl08p\<close>) receives exactly the assembled mapping. In
  the widgets notebook the only statement between \<open>build_atl06\<close> and a call is
  \<open>parms["poly"] = poly\<close>: every call receives, for every key other than \<open>poly\<close>
  (so for srt, cnf, ats, cnt, len, res, maxi and any other processing option), the value
  that \<open>build_atl06\<close> returned, or no value where it returned none; under \<open>poly\<close>
  it receives the region of its turn.
\<close>

theorem parms_passed_unchanged:
  "(\<forall>c \<in> set (fst (boulder_request d srt cnf)). parms c = boulder_parms srt cnf)
   \<and> (\<forall>c \<in> set (fst (single_track_request d poly granule)). parms c = single_track_parms poly)
   \<and> (\<forall>p. and_then (toregion ''../data/grandmesa.geojson'') (\<lambda>rgn. subsetting_parms rgn srt cnf) = Inr p
          \<longrightarrow> (\<forall>c \<in> set (fst (subsetting_requests d toregion srt cnf)). parms c = p))
   \<and> (\<forall>p. and_then (toregion ''grandmesa.geojson'') (\<lambda>rgn. phoreal_parms rgn srt) = Inr p
          \<longrightarrow> (\<forall>c \<in> set (fst (phoreal_requests d toregion srt)). parms c = p))
   \<and> (\<forall>c \<in> set (fst (widgets_request d ecrs built regions)).
          \<forall>k. k \<noteq> ''poly'' \<longrightarrow> map_of (parms c) k = map_of built k)
   \<and> map (\<lambda>c. map_of (parms c) ''poly'') (fst (widgets_request d ecrs built regions))
       = map Some (take (length (fst (widgets_request d ecrs built regions))) regions)"
proof (intro conjI allI impI ballI)
  fix c
  assume "c \<in> set (fst (boulder_request d srt cnf))"
  then show "parms c = boulder_parms srt cnf"
    by (simp add: boulder_request_def Let_def)
next
  fix c
  assume "c \<in> set (fst (single_track_request d poly granule))"
  then show "parms c = single_track_parms poly"
    by (auto simp: single_track_request_def Let_def split: sum.splits)
next
  fix p c
  assume "and_then (toregion ''../data/grandmesa.geojson'') (\<lambda>rgn. subsetting_parms rgn srt cnf) = Inr p"
    and "c \<in> set (fst (subsetting_requests d toregion srt cnf))"
  then show "parms c = p"
    by (auto simp: subsetting_requests_def Let_def split: sum.splits)
next
  fix p c
  assume "and_then (toregion ''grandmesa.geojson'') (\<lambda>rgn. phoreal_parms rgn srt) = Inr p"
    and "c \<in> set (fst (phoreal_requests d toregion srt))"
  then show "parms c = p"
    by (auto simp: phoreal_requests_def Let_def split: sum.splits)
next
  fix c k
  assume "c \<in> set (fst (widgets_request d ecrs built regions))" and k: "k \<noteq> ''poly''"
  then have "c \<in> set (fst (request_regions d built regions [emptyframe ecrs]))"
    by (simp add: widgets_request_def Let_def split: prod.splits)
  from request_regions_parms [OF this] k show "map_of (parms c) k = map_of built k"
    by simp
next
  have "fst (widgets_request d ecrs built regions)
          = fst (request_regions d built regions [emptyframe ecrs])"
    by (simp add: widgets_request_def Let_def split: prod.splits)
  then show "map (\<lambda>c. map_of (parms c) ''poly'') (fst (widgets_request d ecrs built regions))
       = map Some (take (length (fst (widgets_request d ecrs built regions))) regions)"
    by (simp only: request_regions_poly)
qed

theorem parms_passed_unchanged_witness:
  "map parms (fst (widgets_request dispatch_demo None built_demo [PList region]))
     = [built_demo @ [(''poly'', PList region)]]
   \<and> map_of (built_demo @ [(''poly'', PList region)]) ''cnf'' = map_of built_demo ''cnf''
   \<and> map parms (fst (boulder_request dispatch_demo (PInt 0) (PInt 4))) = [boulder_parms (PInt 0) (PInt 4)]"
proof -
  let ?c = "\<lparr>api = ''atl06p'', parms = built_demo @ [(''poly'', PList region)], opts = []\<rparr>"
  have calls: "fst (widgets_request dispatch_demo None built_demo [PList region]) = [?c]"
    by (simp add: widgets_request_def Let_def dispatch_demo_def built_demo_def split: prod.splits)
  then have "?c \<in> set (fst (widgets_request dispatch_demo None built_demo [PList region]))"
    by simp
  with parms_passed_unchanged [of dispatch_demo "PInt 0" "PInt 4" "PList region" "[]"
         toregion_demo None built_demo "[PList region]"]
  have "\<forall>k. k \<noteq> ''poly'' \<longrightarrow> map_of (parms ?c) k = map_of built_demo k"
    by blast
  then have "map_of (built_demo @ [(''poly'', PList region)]) ''cnf'' = map_of built_demo ''cnf''"
    by simp
  moreover have "map parms (fst (boulder_request dispatch_demo (PInt 0) (PInt 4))) = [boulder_parms (PInt 0) (PInt 4)]"
    by (simp add: boulder_request_def Let_def)
  ultimately show ?thesis
    using calls by simp
qed

subsection \<open>The empty table in a concatenation\<close>







text \<open>Two reference systems in one concatenation raise, also when one table is empty.\<close>

lemma pd_concat_two_systems:
  "pd_concat [emptyframe (Some ''EPSG:7912''), demo_frame] = Inl ValueError"
  by code_simp

subsection \<open>Where failures are caught\<close>







end
